theory Spec2Isabelle
  imports Main
begin

section \<open>Strings\<close>

text \<open>
  A Go string is a sequence of bytes, here a \<^typ>\<open>string\<close>. The functions of package
  \<^verbatim>\<open>strings\<close> that enfl.go calls are written out for ASCII text: white space is the six
  ASCII white-space bytes, and case conversion changes the letters A-Z and a-z only.
\<close>

definition isSpace :: "char \<Rightarrow> bool" where
  "isSpace c = (c = CHR 0x09 \<or> c = CHR 0x0A \<or> c = CHR 0x0B \<or> c = CHR 0x0C
                \<or> c = CHR 0x0D \<or> c = CHR 0x20)"

definition TrimSpace :: "string \<Rightarrow> string" where
  "TrimSpace s = rev (dropWhile isSpace (rev (dropWhile isSpace s)))"

definition isUpper :: "char \<Rightarrow> bool" where
  "isUpper c = (65 \<le> (of_char c :: nat) \<and> (of_char c :: nat) \<le> 90)"

definition isLower :: "char \<Rightarrow> bool" where
  "isLower c = (97 \<le> (of_char c :: nat) \<and> (of_char c :: nat) \<le> 122)"

definition upperLetters :: string where
  "upperLetters = ''ABCDEFGHIJKLMNOPQRSTUVWXYZ''"

definition lowerLetters :: string where
  "lowerLetters = ''abcdefghijklmnopqrstuvwxyz''"

definition ToLower :: "string \<Rightarrow> string" where
  "ToLower s =
     map (\<lambda>c. case map_of (zip upperLetters lowerLetters) c of Some d \<Rightarrow> d | None \<Rightarrow> c) s"

definition ToUpper :: "string \<Rightarrow> string" where
  "ToUpper s =
     map (\<lambda>c. case map_of (zip lowerLetters upperLetters) c of Some d \<Rightarrow> d | None \<Rightarrow> c) s"

definition HasPrefix :: "string \<Rightarrow> string \<Rightarrow> bool" where
  "HasPrefix s p = (length p \<le> length s \<and> take (length p) s = p)"

text \<open>\<^verbatim>\<open>strings.Split(s, sep)\<close> for a separator of one byte: never an empty list.\<close>

fun Split :: "string \<Rightarrow> char \<Rightarrow> string list" where
  "Split [] sep = [[]]"
| "Split (c # cs) sep =
     (if c = sep then [] # Split cs sep
      else (case Split cs sep of
              [] \<Rightarrow> [[c]]
            | p # ps \<Rightarrow> (c # p) # ps))"

text \<open>\<^verbatim>\<open>strings.SplitN(s, sep, 2)\<close> for a separator of one byte: one part when the
  separator does not occur, else the text before and the text after its first occurrence.\<close>

definition SplitN2 :: "string \<Rightarrow> char \<Rightarrow> string list" where
  "SplitN2 s sep =
     (if sep \<in> set s then [takeWhile (\<lambda>c. c \<noteq> sep) s, tl (dropWhile (\<lambda>c. c \<noteq> sep) s)]
      else [s])"

text \<open>\<^verbatim>\<open>strings.ReplaceAll(s, old, new)\<close>, left to right without overlap. enfl.go calls it
  with a non-empty \<open>old\<close> only; for an empty \<open>old\<close> this model returns \<open>s\<close>.\<close>

function ReplaceAll :: "string \<Rightarrow> string \<Rightarrow> string \<Rightarrow> string" where
  "ReplaceAll s old new =
     (if old = [] \<or> s = [] then s
      else if HasPrefix s old then new @ ReplaceAll (drop (length old) s) old new
      else hd s # ReplaceAll (tl s) old new)"
  by pat_completeness auto
termination
  by (relation "measure (\<lambda>(s, old, new). length s)") auto

declare ReplaceAll.simps [simp del]

section \<open>Package strconv\<close>

datatype num_err = ErrSyntax | ErrRange

definition isDigit :: "char \<Rightarrow> bool" where
  "isDigit c = (48 \<le> (of_char c :: nat) \<and> (of_char c :: nat) \<le> 57)"

definition digitVal :: "char \<Rightarrow> nat" where
  "digitVal c = of_char c - 48"

definition maxUint64 :: nat where
  "maxUint64 = 2 ^ 64 - 1"

text \<open>
  The loop of \<^verbatim>\<open>strconv.ParseUint(s, 10, bitSize)\<close>: bytes are read left to right; the
  first byte that is no digit is a syntax error, the first step that leaves the range a
  range error, returned with the largest value of the width. The 64-bit wrap-around test
  of the Go code (\<^verbatim>\<open>n1 < n\<close>) is the test \<open>maxUint64 < n1\<close> on unbounded numbers.
\<close>

fun parseUintLoop :: "nat \<Rightarrow> nat \<Rightarrow> string \<Rightarrow> nat \<times> num_err option" where
  "parseUintLoop maxVal n [] = (n, None)"
| "parseUintLoop maxVal n (c # cs) =
     (if \<not> isDigit c then (0, Some ErrSyntax)
      else if n \<ge> maxUint64 div 10 + 1 then (maxVal, Some ErrRange)
      else (let n1 = n * 10 + digitVal c in
            if n1 > maxUint64 \<or> n1 > maxVal then (maxVal, Some ErrRange)
            else parseUintLoop maxVal n1 cs))"

definition ParseUint :: "string \<Rightarrow> nat \<Rightarrow> nat \<times> num_err option" where
  "ParseUint s bitSize =
     (if s = [] then (0, Some ErrSyntax) else parseUintLoop (2 ^ bitSize - 1) 0 s)"

text \<open>\<^verbatim>\<open>strconv.ParseInt(s, 10, bitSize)\<close>: an optional sign, then \<open>ParseUint\<close>, then the
  range check of the signed width.\<close>

definition ParseInt :: "string \<Rightarrow> nat \<Rightarrow> int \<times> num_err option" where
  "ParseInt s0 bitSize =
     (if s0 = [] then (0, Some ErrSyntax)
      else
        let neg = (hd s0 = CHR ''-'');
            s = (if hd s0 = CHR ''+'' \<or> hd s0 = CHR ''-'' then tl s0 else s0);
            (un, err) = ParseUint s bitSize;
            cutoff = (2::nat) ^ (bitSize - 1)
        in if err = Some ErrSyntax then (0, Some ErrSyntax)
           else if \<not> neg \<and> un \<ge> cutoff then (int cutoff - 1, Some ErrRange)
           else if neg \<and> un > cutoff then (- int cutoff, Some ErrRange)
           else (if neg then - int un else int un, None))"

text \<open>\<^verbatim>\<open>strconv.ParseBool\<close>: exactly twelve spellings.\<close>

definition ParseBool :: "string \<Rightarrow> bool option" where
  "ParseBool s =
     (if s \<in> set [''1'', ''t'', ''T'', ''TRUE'', ''true'', ''True''] then Some True
      else if s \<in> set [''0'', ''f'', ''F'', ''FALSE'', ''false'', ''False''] then Some False
      else None)"

definition FormatBool :: "bool \<Rightarrow> string" where
  "FormatBool b = (if b then ''true'' else ''false'')"

text \<open>Printing in base 10, a digit at a time from the table of digits.\<close>

definition digitChar :: "nat \<Rightarrow> char" where
  "digitChar d = ''0123456789'' ! d"

fun FormatUint :: "nat \<Rightarrow> string" where
  "FormatUint n =
     (if n < 10 then [digitChar n]
      else FormatUint (n div 10) @ [digitChar (n mod 10)])"

declare FormatUint.simps [simp del]

definition FormatInt :: "int \<Rightarrow> string" where
  "FormatInt i = (if i < 0 then CHR ''-'' # FormatUint (nat (- i)) else FormatUint (nat i))"

text \<open>
  What enfl.go takes from \<^verbatim>\<open>strconv.ParseFloat\<close>, \<^verbatim>\<open>time.ParseDuration\<close> and the
  printing of floats and durations is a parameter of the model: \<open>'f\<close> is the type of
  64-bit floats, a duration is its count of nanoseconds.
\<close>

record 'f stdlib =
  ParseFloat :: "string \<Rightarrow> 'f option"
  FormatFloat :: "'f \<Rightarrow> string"
  Float32 :: "'f \<Rightarrow> 'f"
  FloatZero :: 'f
  ParseDuration :: "string \<Rightarrow> int option"
  DurationString :: "int \<Rightarrow> string"

section \<open>Fields and their values\<close>

text \<open>
  The type of a leaf field as \<^verbatim>\<open>reflect\<close> shows it: its kind, with
  \<^verbatim>\<open>time.Duration\<close> (kind int64) apart since the code tests for it. \<open>TOther k\<close> is any
  type of another kind, \<open>k\<close> the kind's name (\<^verbatim>\<open>map\<close>, \<^verbatim>\<open>ptr\<close>, and
  \<^verbatim>\<open>struct\<close> for \<^verbatim>\<open>time.Time\<close>).
\<close>

datatype ftype =
    TString
  | TInt | TInt8 | TInt16 | TInt32 | TInt64 | TDuration
  | TUint | TUint8 | TUint16 | TUint32 | TUint64
  | TFloat32 | TFloat64
  | TBool
  | TSlice ftype
  | TOther string

datatype 'f val =
    VString string
  | VInt int
  | VUint nat
  | VFloat 'f
  | VBool bool
  | VSlice "'f val list"
  | VOpaque

fun kindName :: "ftype \<Rightarrow> string" where
  "kindName TString = ''string''"
| "kindName TInt = ''int''"
| "kindName TInt8 = ''int8''"
| "kindName TInt16 = ''int16''"
| "kindName TInt32 = ''int32''"
| "kindName TInt64 = ''int64''"
| "kindName TDuration = ''int64''"
| "kindName TUint = ''uint''"
| "kindName TUint8 = ''uint8''"
| "kindName TUint16 = ''uint16''"
| "kindName TUint32 = ''uint32''"
| "kindName TUint64 = ''uint64''"
| "kindName TFloat32 = ''float32''"
| "kindName TFloat64 = ''float64''"
| "kindName TBool = ''bool''"
| "kindName (TSlice t) = ''slice''"
| "kindName (TOther k) = k"

text \<open>The width of an integer type; \<^verbatim>\<open>int\<close> and \<^verbatim>\<open>uint\<close> have 64 bits.\<close>

fun bits :: "ftype \<Rightarrow> nat" where
  "bits TInt8 = 8"
| "bits TInt16 = 16"
| "bits TInt32 = 32"
| "bits TUint8 = 8"
| "bits TUint16 = 16"
| "bits TUint32 = 32"
| "bits t = 64"

fun zero_value :: "'f stdlib \<Rightarrow> ftype \<Rightarrow> 'f val" where
  "zero_value L TString = VString []"
| "zero_value L TBool = VBool False"
| "zero_value L TFloat32 = VFloat (FloatZero L)"
| "zero_value L TFloat64 = VFloat (FloatZero L)"
| "zero_value L (TSlice t) = VSlice []"
| "zero_value L (TOther k) = VOpaque"
| "zero_value L TUint = VUint 0"
| "zero_value L TUint8 = VUint 0"
| "zero_value L TUint16 = VUint 0"
| "zero_value L TUint32 = VUint 0"
| "zero_value L TUint64 = VUint 0"
| "zero_value L t = VInt 0"

text \<open>
  \<^verbatim>\<open>reflect.Value.SetInt\<close> and \<^verbatim>\<open>SetUint\<close> store a 64-bit number in a field of the
  field's width by conversion: the low bits are kept, two's complement for a signed field.
\<close>

definition SetInt :: "ftype \<Rightarrow> int \<Rightarrow> 'f val" where
  "SetInt t x = VInt ((x + 2 ^ (bits t - 1)) mod 2 ^ bits t - 2 ^ (bits t - 1))"

definition SetUint :: "ftype \<Rightarrow> nat \<Rightarrow> 'f val" where
  "SetUint t x = VUint (x mod 2 ^ bits t)"

section \<open>Errors and diagnostics\<close>

text \<open>One constructor for each format string of an error in enfl.go, with its arguments.\<close>

datatype error =
    ConfigNotStructPointer
  | FailedLoadEnvFiles error
  | FailedRegisterFlags error
  | UnsupportedFlagType string string
  | RequiredFieldMissing string
  | InvalidDuration string
  | InvalidInteger string num_err
  | InvalidUnsigned string num_err
  | InvalidFloat string
  | InvalidBoolean string
  | UnsupportedFieldType string string
  | FailedLoadFile string error
  | FailedOpen string
  | InvalidFormat nat string
  | ScannerError

text \<open>A line on the standard error stream: \<^verbatim>\<open>config warning: %v\<close> and
  \<^verbatim>\<open>config warning: failed to load .env files: %v\<close>.\<close>

datatype diag = ConfigWarning error | EnvFilesWarning error

section \<open>Type conversion\<close>

text \<open>The two integer branches of \<^verbatim>\<open>setFieldValue\<close>: the text is parsed with bit size 64
  whatever the width of the field, and the result is stored by \<open>SetInt\<close> or \<open>SetUint\<close>.\<close>

definition setSigned :: "ftype \<Rightarrow> 'f val \<Rightarrow> string \<Rightarrow> string \<Rightarrow> 'f val \<times> error option" where
  "setSigned t old v fieldName =
     (case ParseInt v 64 of
        (intVal, Some e) \<Rightarrow> (old, Some (InvalidInteger fieldName e))
      | (intVal, None) \<Rightarrow> (SetInt t intVal, None))"

definition setUnsigned :: "ftype \<Rightarrow> 'f val \<Rightarrow> string \<Rightarrow> string \<Rightarrow> 'f val \<times> error option" where
  "setUnsigned t old v fieldName =
     (case ParseUint v 64 of
        (uintVal, Some e) \<Rightarrow> (old, Some (InvalidUnsigned fieldName e))
      | (uintVal, None) \<Rightarrow> (SetUint t uintVal, None))"

definition elemName :: "string \<Rightarrow> nat \<Rightarrow> string" where
  "elemName fieldName i = fieldName @ ''['' @ FormatUint i @ '']''"

text \<open>
  \<open>setFieldValue L t old value fieldName\<close> is a call of \<^verbatim>\<open>setFieldValue\<close> on a field of
  type \<open>t\<close> that holds \<open>old\<close>; it returns what the field holds afterwards and the error.
  \<open>setElems\<close> is the loop of \<^verbatim>\<open>setSliceValue\<close> over the parts, on the slice made by
  \<^verbatim>\<open>reflect.MakeSlice\<close>, whose element \<open>i\<close> is set in place.
\<close>

function
  setFieldValue :: "'f stdlib \<Rightarrow> ftype \<Rightarrow> 'f val \<Rightarrow> string \<Rightarrow> string \<Rightarrow> 'f val \<times> error option"
and
  setSliceValue :: "'f stdlib \<Rightarrow> ftype \<Rightarrow> 'f val \<Rightarrow> string \<Rightarrow> string \<Rightarrow> 'f val \<times> error option"
and
  setElems :: "'f stdlib \<Rightarrow> ftype \<Rightarrow> string list \<Rightarrow> nat \<Rightarrow> string \<Rightarrow> 'f val list
                 \<Rightarrow> 'f val list \<times> error option"
where
  "setFieldValue L t old v fieldName =
     (case t of
        TString \<Rightarrow> (VString v, None)
      | TInt \<Rightarrow> setSigned t old v fieldName
      | TInt8 \<Rightarrow> setSigned t old v fieldName
      | TInt16 \<Rightarrow> setSigned t old v fieldName
      | TInt32 \<Rightarrow> setSigned t old v fieldName
      | TInt64 \<Rightarrow> setSigned t old v fieldName
      | TDuration \<Rightarrow>
          (case ParseDuration L v of
             None \<Rightarrow> (old, Some (InvalidDuration fieldName))
           | Some d \<Rightarrow> (SetInt t d, None))
      | TUint \<Rightarrow> setUnsigned t old v fieldName
      | TUint8 \<Rightarrow> setUnsigned t old v fieldName
      | TUint16 \<Rightarrow> setUnsigned t old v fieldName
      | TUint32 \<Rightarrow> setUnsigned t old v fieldName
      | TUint64 \<Rightarrow> setUnsigned t old v fieldName
      | TFloat32 \<Rightarrow>
          (case ParseFloat L v of
             None \<Rightarrow> (old, Some (InvalidFloat fieldName))
           | Some x \<Rightarrow> (VFloat (Float32 L x), None))
      | TFloat64 \<Rightarrow>
          (case ParseFloat L v of
             None \<Rightarrow> (old, Some (InvalidFloat fieldName))
           | Some x \<Rightarrow> (VFloat x, None))
      | TBool \<Rightarrow>
          (case ParseBool v of
             None \<Rightarrow> (old, Some (InvalidBoolean fieldName))
           | Some b \<Rightarrow> (VBool b, None))
      | TSlice t' \<Rightarrow> setSliceValue L t' old v fieldName
      | TOther k \<Rightarrow> (old, Some (UnsupportedFieldType k fieldName)))"
| "setSliceValue L t old v fieldName =
     (if v = [] then (old, None)
      else
        let parts = Split v CHR '',''
        in case setElems L t parts 0 fieldName (replicate (length parts) (zero_value L t)) of
             (slice, Some e) \<Rightarrow> (old, Some e)
           | (slice, None) \<Rightarrow> (VSlice slice, None))"
| "setElems L t [] i fieldName slice = (slice, None)"
| "setElems L t (part # parts) i fieldName slice =
     (case setFieldValue L t (slice ! i) (TrimSpace part) (elemName fieldName i) of
        (elem, Some e) \<Rightarrow> (slice[i := elem], Some e)
      | (elem, None) \<Rightarrow> setElems L t parts (Suc i) fieldName (slice[i := elem]))"
  by pat_completeness auto
termination
  by (relation "measures
        [\<lambda>x. case x of
           Inl (L, t, old, v, n) \<Rightarrow> 3 * size t
         | Inr (Inl (L, t, old, v, n)) \<Rightarrow> 3 * size t + 2
         | Inr (Inr (L, t, parts, i, n, slice)) \<Rightarrow> 3 * size t + 1,
         \<lambda>x. case x of
           Inr (Inr (L, t, parts, i, n, slice)) \<Rightarrow> length parts
         | _ \<Rightarrow> 0]") auto

declare setFieldValue.simps [simp del] setSliceValue.simps [simp del] setElems.simps(2) [simp del]


section \<open>The structure to fill\<close>

text \<open>
  One field of the configuration structure as \<^verbatim>\<open>reflect\<close> shows it: its name, whether
  it can be set (it is exported), and its tags; \<^verbatim>\<open>Tag.Get\<close> gives the empty string for a
  tag that is not there. A leaf carries its type and what it holds, a nested structure its
  fields. The walker treats \<^verbatim>\<open>time.Time\<close> as a leaf: it is \<open>Leaf f (TOther ''struct'') v\<close>.
\<close>

record sfield =
  Name :: string
  exported :: bool
  tag_env :: string
  tag_flag :: string
  tag_default :: string
  tag_usage :: string
  tag_required :: string
  tag_prefix :: string

datatype 'f node = Leaf sfield ftype "'f val" | Struct sfield "'f node list"

text \<open>The argument of \<^verbatim>\<open>Load\<close>: a pointer to a structure, or anything else.\<close>

datatype 'f config = PtrToStruct "'f node list" | NotPtrToStruct

section \<open>The loader and the process around it\<close>

datatype flagset_ref = CommandLine | CustomFlagSet

record Loader =
  envPrefix :: string
  flagSet :: flagset_ref
  failOnError :: bool
  envFiles :: "string list"
  autoLoadEnv :: bool

datatype LoaderOption =
    WithFlagSet flagset_ref
  | WithEnvPrefix string
  | WithFailOnError bool
  | WithEnvFiles "string list"
  | WithAutoLoadEnv bool

fun applyOption :: "LoaderOption \<Rightarrow> Loader \<Rightarrow> Loader" where
  "applyOption (WithFlagSet r) l = l\<lparr>flagSet := r\<rparr>"
| "applyOption (WithEnvPrefix p) l = l\<lparr>envPrefix := p\<rparr>"
| "applyOption (WithFailOnError b) l = l\<lparr>failOnError := b\<rparr>"
| "applyOption (WithEnvFiles fs) l = l\<lparr>envFiles := fs\<rparr>"
| "applyOption (WithAutoLoadEnv b) l = l\<lparr>autoLoadEnv := b\<rparr>"

definition NewLoader :: "LoaderOption list \<Rightarrow> Loader" where
  "NewLoader opts =
     foldl (\<lambda>l opt. applyOption opt l)
       \<lparr>envPrefix = [], flagSet = CommandLine, failOnError = True, envFiles = [],
        autoLoadEnv = True\<rparr> opts"

text \<open>
  A file as \<^verbatim>\<open>bufio.Scanner\<close> delivers it: its lines, and whether the scanner ends with
  an error. The process: the environment, the files that \<^verbatim>\<open>os.Stat\<close> finds and
  \<^verbatim>\<open>os.Open\<close> opens, the standard error stream, and the flag set the loader points to.
  Of a registered flag the loader reads only \<^verbatim>\<open>Value.String()\<close>, so \<open>flags\<close> maps the
  name of each registered flag to that text. \<open>flagParse\<close> is what \<^verbatim>\<open>flag.Parse()\<close>
  makes of the registered flags with the arguments of the process; \<open>None\<close> when it ends
  the process. \<^verbatim>\<open>os.Setenv\<close> is taken to succeed (the source drops its error), and
  the names of flags to be names that package \<^verbatim>\<open>flag\<close> accepts.
\<close>

record envfile =
  flines :: "string list"
  scanFails :: bool

record world =
  environ :: "string \<rightharpoonup> string"
  statOK :: "string \<Rightarrow> bool"
  openFile :: "string \<rightharpoonup> envfile"
  stderr :: "diag list"
  flags :: "string \<rightharpoonup> string"
  flagsParsed :: bool
  flagParse :: "(string \<rightharpoonup> string) \<Rightarrow> (string \<rightharpoonup> string) option"

definition Getenv :: "world \<Rightarrow> string \<Rightarrow> string" where
  "Getenv w k = (case environ w k of None \<Rightarrow> [] | Some v \<Rightarrow> v)"

definition LookupEnv :: "world \<Rightarrow> string \<Rightarrow> bool" where
  "LookupEnv w k = (environ w k \<noteq> None)"

definition Setenv :: "world \<Rightarrow> string \<Rightarrow> string \<Rightarrow> world" where
  "Setenv w k v = w\<lparr>environ := (environ w)(k \<mapsto> v)\<rparr>"

section \<open>Names\<close>

definition toSnakeCase :: "string \<Rightarrow> string" where
  "toSnakeCase s =
     ToLower (case s of
                [] \<Rightarrow> []
              | c # cs \<Rightarrow> c # concat (map (\<lambda>r. if isUpper r then [CHR ''_'', r] else [r]) cs))"

definition toKebabCase :: "string \<Rightarrow> string" where
  "toKebabCase s = ReplaceAll (toSnakeCase s) ''_'' ''-''"

definition getNestedPrefix :: "sfield \<Rightarrow> string \<Rightarrow> string" where
  "getNestedPrefix field currentPrefix =
     (if tag_prefix field \<noteq> [] then currentPrefix @ tag_prefix field
      else currentPrefix @ toSnakeCase (Name field) @ ''_'')"

definition getFlagName :: "sfield \<Rightarrow> string" where
  "getFlagName field =
     (if tag_flag field \<noteq> [] then TrimSpace (hd (Split (tag_flag field) CHR '',''))
      else toKebabCase (Name field))"

definition getFlagValue :: "world \<Rightarrow> string \<Rightarrow> string" where
  "getFlagValue w name = (case flags w name of Some v \<Rightarrow> v | None \<Rightarrow> [])"

text \<open>The two prefixes put before a name in \<^verbatim>\<open>getEnvKey\<close>, the nested one first.\<close>

definition withPrefixes :: "Loader \<Rightarrow> string \<Rightarrow> string \<Rightarrow> string" where
  "withPrefixes l prefix name0 =
     (let name = (if prefix \<noteq> [] then prefix @ name0 else name0)
      in if envPrefix l \<noteq> [] then envPrefix l @ name else name)"

text \<open>The loop of \<^verbatim>\<open>getEnvKey\<close> over the names of the \<^verbatim>\<open>env\<close> tag: the first name
  that, with the prefixes, has a non-empty value in the environment.\<close>

fun envNameLoop :: "Loader \<Rightarrow> world \<Rightarrow> string \<Rightarrow> string list \<Rightarrow> string option" where
  "envNameLoop l w prefix [] = None"
| "envNameLoop l w prefix (name0 # rest) =
     (let name = withPrefixes l prefix (TrimSpace name0)
      in if Getenv w name \<noteq> [] then Some name else envNameLoop l w prefix rest)"

definition getEnvKey :: "Loader \<Rightarrow> world \<Rightarrow> sfield \<Rightarrow> string \<Rightarrow> string" where
  "getEnvKey l w field prefix =
     (if tag_env field \<noteq> [] then
        (let envNames = Split (tag_env field) CHR '',''
         in case envNameLoop l w prefix envNames of
              Some name \<Rightarrow> name
            | None \<Rightarrow> withPrefixes l prefix (TrimSpace (hd envNames)))
      else ToUpper (withPrefixes l prefix (toSnakeCase (Name field))))"

section \<open>Registering flags\<close>

text \<open>
  \<open>registerFieldFlag\<close> on the texts of the registered flags: a new flag holds its default,
  printed as its type prints it. \<^verbatim>\<open>strconv.Atoi\<close> is \<open>ParseInt\<close> at 64 bits. The usage
  text of a flag is not read by the loader and is left out.
\<close>

definition registerFieldFlag ::
  "'f stdlib \<Rightarrow> Loader \<Rightarrow> sfield \<Rightarrow> ftype \<Rightarrow> string \<Rightarrow> (string \<rightharpoonup> string)
     \<Rightarrow> error option \<times> (string \<rightharpoonup> string)" where
  "registerFieldFlag L l field t prefix fs =
     (let flagName = getFlagName field in
      if flagName = [] then (None, fs)
      else if fs flagName \<noteq> None then (None, fs)
      else
        let defaultValue = tag_default field in
        case t of
          TString \<Rightarrow> (None, fs(flagName \<mapsto> defaultValue))
        | TInt \<Rightarrow>
            (None, fs(flagName \<mapsto> FormatInt
               (if defaultValue \<noteq> [] then
                  (case ParseInt defaultValue 64 of (parsed, None) \<Rightarrow> parsed | (parsed, Some e) \<Rightarrow> 0)
                else 0)))
        | TInt64 \<Rightarrow>
            (None, fs(flagName \<mapsto> FormatInt
               (if defaultValue \<noteq> [] then
                  (case ParseInt defaultValue 64 of (parsed, None) \<Rightarrow> parsed | (parsed, Some e) \<Rightarrow> 0)
                else 0)))
        | TDuration \<Rightarrow>
            (None, fs(flagName \<mapsto> DurationString L
               (if defaultValue \<noteq> [] then
                  (case ParseDuration L defaultValue of Some parsed \<Rightarrow> parsed | None \<Rightarrow> 0)
                else 0)))
        | TUint \<Rightarrow>
            (None, fs(flagName \<mapsto> FormatUint
               (if defaultValue \<noteq> [] then
                  (case ParseUint defaultValue 64 of (parsed, None) \<Rightarrow> parsed | (parsed, Some e) \<Rightarrow> 0)
                else 0)))
        | TUint64 \<Rightarrow>
            (None, fs(flagName \<mapsto> FormatUint
               (if defaultValue \<noteq> [] then
                  (case ParseUint defaultValue 64 of (parsed, None) \<Rightarrow> parsed | (parsed, Some e) \<Rightarrow> 0)
                else 0)))
        | TFloat64 \<Rightarrow>
            (None, fs(flagName \<mapsto> FormatFloat L
               (if defaultValue \<noteq> [] then
                  (case ParseFloat L defaultValue of Some parsed \<Rightarrow> parsed | None \<Rightarrow> FloatZero L)
                else FloatZero L)))
        | TBool \<Rightarrow>
            (None, fs(flagName \<mapsto> FormatBool
               (if defaultValue \<noteq> [] then
                  (case ParseBool defaultValue of Some parsed \<Rightarrow> parsed | None \<Rightarrow> False)
                else False)))
        | TSlice t' \<Rightarrow> (None, fs(flagName \<mapsto> defaultValue))
        | TInt8 \<Rightarrow> (Some (UnsupportedFlagType (kindName t) (Name field)), fs)
        | TInt16 \<Rightarrow> (Some (UnsupportedFlagType (kindName t) (Name field)), fs)
        | TInt32 \<Rightarrow> (Some (UnsupportedFlagType (kindName t) (Name field)), fs)
        | TUint8 \<Rightarrow> (Some (UnsupportedFlagType (kindName t) (Name field)), fs)
        | TUint16 \<Rightarrow> (Some (UnsupportedFlagType (kindName t) (Name field)), fs)
        | TUint32 \<Rightarrow> (Some (UnsupportedFlagType (kindName t) (Name field)), fs)
        | TFloat32 \<Rightarrow> (Some (UnsupportedFlagType (kindName t) (Name field)), fs)
        | TOther k \<Rightarrow> (Some (UnsupportedFlagType (kindName t) (Name field)), fs))"

fun registerFlags ::
  "'f stdlib \<Rightarrow> Loader \<Rightarrow> string \<Rightarrow> 'f node list \<Rightarrow> (string \<rightharpoonup> string)
     \<Rightarrow> error option \<times> (string \<rightharpoonup> string)" where
  "registerFlags L l prefix [] fs = (None, fs)"
| "registerFlags L l prefix (Leaf field t v # rest) fs =
     (if \<not> exported field then registerFlags L l prefix rest fs
      else case registerFieldFlag L l field t prefix fs of
             (Some err, fs') \<Rightarrow> (Some err, fs')
           | (None, fs') \<Rightarrow> registerFlags L l prefix rest fs')"
| "registerFlags L l prefix (Struct field sub # rest) fs =
     (if \<not> exported field then registerFlags L l prefix rest fs
      else case registerFlags L l (getNestedPrefix field prefix) sub fs of
             (Some err, fs') \<Rightarrow> (Some err, fs')
           | (None, fs') \<Rightarrow> registerFlags L l prefix rest fs')"

section \<open>Resolving and setting the fields\<close>

definition processField ::
  "'f stdlib \<Rightarrow> Loader \<Rightarrow> world \<Rightarrow> sfield \<Rightarrow> ftype \<Rightarrow> 'f val \<Rightarrow> string
     \<Rightarrow> 'f val \<times> error option" where
  "processField L l w field t v prefix =
     (let envKey = getEnvKey l w field prefix;
          flagName = getFlagName field;
          defaultValue = tag_default field;
          required = (tag_required field = ''true'');
          (value1, found1) =
             (if flagName \<noteq> [] \<and> getFlagValue w flagName \<noteq> []
              then (getFlagValue w flagName, True) else ([], False));
          (value2, found2) =
             (if \<not> found1 \<and> envKey \<noteq> [] \<and> Getenv w envKey \<noteq> []
              then (Getenv w envKey, True) else (value1, found1));
          (value3, found3) =
             (if \<not> found2 \<and> defaultValue \<noteq> []
              then (defaultValue, True) else (value2, found2))
      in if required \<and> \<not> found3 then (v, Some (RequiredFieldMissing (Name field)))
         else if found3 then setFieldValue L t v value3 (Name field)
         else (v, None))"

fun processStruct ::
  "'f stdlib \<Rightarrow> Loader \<Rightarrow> string \<Rightarrow> 'f node list \<Rightarrow> world
     \<Rightarrow> error option \<times> 'f node list \<times> world" where
  "processStruct L l prefix [] w = (None, [], w)"
| "processStruct L l prefix (Leaf field t v # rest) w =
     (if \<not> exported field then
        (case processStruct L l prefix rest w of
           (err, rest', w') \<Rightarrow> (err, Leaf field t v # rest', w'))
      else case processField L l w field t v prefix of
             (v', Some err) \<Rightarrow>
               (if failOnError l then (Some err, Leaf field t v' # rest, w)
                else case processStruct L l prefix rest
                            (w\<lparr>stderr := stderr w @ [ConfigWarning err]\<rparr>) of
                       (err', rest', w') \<Rightarrow> (err', Leaf field t v' # rest', w'))
           | (v', None) \<Rightarrow>
               (case processStruct L l prefix rest w of
                  (err', rest', w') \<Rightarrow> (err', Leaf field t v' # rest', w')))"
| "processStruct L l prefix (Struct field sub # rest) w =
     (if \<not> exported field then
        (case processStruct L l prefix rest w of
           (err, rest', w') \<Rightarrow> (err, Struct field sub # rest', w'))
      else case processStruct L l (getNestedPrefix field prefix) sub w of
             (Some err, sub', w') \<Rightarrow> (Some err, Struct field sub' # rest, w')
           | (None, sub', w') \<Rightarrow>
               (case processStruct L l prefix rest w' of
                  (err', rest', w'') \<Rightarrow> (err', Struct field sub' # rest', w'')))"

section \<open>Files of environment variables\<close>

definition unquoteValue :: "string \<Rightarrow> string" where
  "unquoteValue v =
     (if length v \<ge> 2 \<and> hd v = CHR 0x22 \<and> last v = CHR 0x22 then
        (let v1 = butlast (tl v);
             v2 = ReplaceAll v1 [CHR 0x5C, CHR 0x22] [CHR 0x22];
             v3 = ReplaceAll v2 [CHR 0x5C, CHR 0x5C] [CHR 0x5C];
             v4 = ReplaceAll v3 [CHR 0x5C, CHR ''n''] [CHR 0x0A];
             v5 = ReplaceAll v4 [CHR 0x5C, CHR ''r''] [CHR 0x0D];
             v6 = ReplaceAll v5 [CHR 0x5C, CHR ''t''] [CHR 0x09]
         in v6)
      else if length v \<ge> 2 \<and> hd v = CHR 0x27 \<and> last v = CHR 0x27 then butlast (tl v)
      else v)"

text \<open>The loop of \<^verbatim>\<open>loadEnvFile\<close> over the lines the scanner delivers; \<open>lineNum\<close> counts
  the lines read before.\<close>

fun envFileLoop :: "string list \<Rightarrow> nat \<Rightarrow> bool \<Rightarrow> world \<Rightarrow> error option \<times> world" where
  "envFileLoop [] lineNum fails w = (if fails then Some ScannerError else None, w)"
| "envFileLoop (text # rest) lineNum0 fails w =
     (let lineNum = lineNum0 + 1;
          line = TrimSpace text
      in if line = [] \<or> HasPrefix line ''#'' then envFileLoop rest lineNum fails w
         else
           let parts = SplitN2 line CHR ''=''
           in if length parts \<noteq> 2 then (Some (InvalidFormat lineNum line), w)
              else
                let key = TrimSpace (parts ! 0);
                    value0 = TrimSpace (parts ! 1)
                in if key = [] \<or> value0 = [] then envFileLoop rest lineNum fails w
                   else
                     let value = unquoteValue value0
                     in if \<not> LookupEnv w key
                        then envFileLoop rest lineNum fails (Setenv w key value)
                        else envFileLoop rest lineNum fails w)"

definition loadEnvFile :: "Loader \<Rightarrow> world \<Rightarrow> string \<Rightarrow> error option \<times> world" where
  "loadEnvFile l w filename =
     (case openFile w filename of
        None \<Rightarrow> (Some (FailedOpen filename), w)
      | Some f \<Rightarrow> envFileLoop (flines f) 0 (scanFails f) w)"

definition commonEnvFiles :: "string list" where
  "commonEnvFiles = [''.env'', ''.env.local'', ''.env.development'', ''.env.production'']"

text \<open>The list \<^verbatim>\<open>filesToLoad\<close> that \<^verbatim>\<open>loadEnvFiles\<close> builds before it loads anything.\<close>

definition filesToLoad :: "Loader \<Rightarrow> world \<Rightarrow> string list" where
  "filesToLoad l w =
     (if autoLoadEnv l then envFiles l @ filter (statOK w) commonEnvFiles else envFiles l)"

fun loadEach :: "Loader \<Rightarrow> string list \<Rightarrow> world \<Rightarrow> error option \<times> world" where
  "loadEach l [] w = (None, w)"
| "loadEach l (file # rest) w =
     (case loadEnvFile l w file of
        (Some err, w') \<Rightarrow> (Some (FailedLoadFile file err), w')
      | (None, w') \<Rightarrow> loadEach l rest w')"

definition loadEnvFiles :: "Loader \<Rightarrow> world \<Rightarrow> error option \<times> world" where
  "loadEnvFiles l w = loadEach l (filesToLoad l w) w"

section \<open>Load\<close>

text \<open>\<open>Load\<close> returns the error, the structure and the process afterwards; \<open>None\<close> when
  \<^verbatim>\<open>flag.Parse()\<close> ends the process.\<close>

definition Load ::
  "'f stdlib \<Rightarrow> Loader \<Rightarrow> 'f config \<Rightarrow> world \<Rightarrow> (error option \<times> 'f config \<times> world) option" where
  "Load L l config w =
     (case config of
        NotPtrToStruct \<Rightarrow> Some (Some ConfigNotStructPointer, config, w)
      | PtrToStruct nodes \<Rightarrow>
          (case loadEnvFiles l w of (ferr, w1) \<Rightarrow>
             (case (ferr, failOnError l) of
                (Some err, True) \<Rightarrow> Some (Some (FailedLoadEnvFiles err), config, w1)
              | _ \<Rightarrow>
                 (let w2 = (case ferr of
                              Some err \<Rightarrow> w1\<lparr>stderr := stderr w1 @ [EnvFilesWarning err]\<rparr>
                            | None \<Rightarrow> w1)
                  in case registerFlags L l [] nodes (flags w2) of
                       (Some err, fs) \<Rightarrow>
                         Some (Some (FailedRegisterFlags err), config, w2\<lparr>flags := fs\<rparr>)
                     | (None, fs) \<Rightarrow>
                         (let w3 = w2\<lparr>flags := fs\<rparr>;
                              after = (if flagSet l = CommandLine \<and> \<not> flagsParsed w3
                                       then (case flagParse w3 (flags w3) of
                                               None \<Rightarrow> None
                                             | Some fs' \<Rightarrow> Some (w3\<lparr>flags := fs', flagsParsed := True\<rparr>))
                                       else Some w3)
                          in case after of
                               None \<Rightarrow> None
                             | Some w4 \<Rightarrow>
                                 (case processStruct L l [] nodes w4 of
                                    (err, nodes', w5) \<Rightarrow> Some (err, PtrToStruct nodes', w5)))))))"


section \<open>Notions for stating the properties\<close>

text \<open>The leaves the walker reaches, in the order it reaches them, each with the prefix
  accumulated on the way to it: unexported fields and what lies below them are skipped.\<close>

fun leaves :: "string \<Rightarrow> 'f node list \<Rightarrow> (string \<times> sfield \<times> ftype \<times> 'f val) list" where
  "leaves prefix [] = []"
| "leaves prefix (Leaf field t v # rest) =
     (if exported field then [(prefix, field, t, v)] else []) @ leaves prefix rest"
| "leaves prefix (Struct field sub # rest) =
     (if exported field then leaves (getNestedPrefix field prefix) sub else [])
     @ leaves prefix rest"

text \<open>What \<open>processField\<close> does to one reached leaf: the error, and the leaf afterwards.\<close>

definition leafError ::
  "'f stdlib \<Rightarrow> Loader \<Rightarrow> world \<Rightarrow> string \<times> sfield \<times> ftype \<times> 'f val \<Rightarrow> error option" where
  "leafError L l w x = (case x of (p, field, t, v) \<Rightarrow> snd (processField L l w field t v p))"

definition leafAfter ::
  "'f stdlib \<Rightarrow> Loader \<Rightarrow> world \<Rightarrow> string \<times> sfield \<times> ftype \<times> 'f val
     \<Rightarrow> string \<times> sfield \<times> ftype \<times> 'f val" where
  "leafAfter L l w x =
     (case x of (p, field, t, v) \<Rightarrow> (p, field, t, fst (processField L l w field t v p)))"

text \<open>The three tiers of \<open>processField\<close> all come up empty for a field.\<close>

definition resolvesNothing :: "Loader \<Rightarrow> world \<Rightarrow> sfield \<Rightarrow> string \<Rightarrow> bool" where
  "resolvesNothing l w field prefix =
     ((getFlagName field = [] \<or> getFlagValue w (getFlagName field) = [])
      \<and> (getEnvKey l w field prefix = [] \<or> Getenv w (getEnvKey l w field prefix) = [])
      \<and> tag_default field = [])"

text \<open>The part of \<open>Load\<close> before the walk: the process in which \<open>processStruct\<close> starts,
  when \<open>Load\<close> gets that far.\<close>

definition beforeWalk :: "'f stdlib \<Rightarrow> Loader \<Rightarrow> 'f node list \<Rightarrow> world \<Rightarrow> world option" where
  "beforeWalk L l nodes w =
     (case loadEnvFiles l w of (ferr, w1) \<Rightarrow>
        (case (ferr, failOnError l) of
           (Some err, True) \<Rightarrow> None
         | _ \<Rightarrow>
            (let w2 = (case ferr of
                         Some err \<Rightarrow> w1\<lparr>stderr := stderr w1 @ [EnvFilesWarning err]\<rparr>
                       | None \<Rightarrow> w1)
             in case registerFlags L l [] nodes (flags w2) of
                  (Some err, fs) \<Rightarrow> None
                | (None, fs) \<Rightarrow>
                    (let w3 = w2\<lparr>flags := fs\<rparr>
                     in if flagSet l = CommandLine \<and> \<not> flagsParsed w3
                        then (case flagParse w3 (flags w3) of
                                None \<Rightarrow> None
                              | Some fs' \<Rightarrow> Some (w3\<lparr>flags := fs', flagsParsed := True\<rparr>))
                        else Some w3))))"

text \<open>The value a file of environment variables binds to a key, in the words of the
  format: the first line \<^verbatim>\<open>KEY=VALUE\<close> for the key with a non-empty value, unquoted;
  lines after a malformed line are not read.\<close>

fun fileValue :: "string list \<Rightarrow> string \<Rightarrow> string option" where
  "fileValue [] k = None"
| "fileValue (text # rest) k =
     (let line = TrimSpace text
      in if line = [] \<or> HasPrefix line ''#'' then fileValue rest k
         else if CHR ''='' \<notin> set line then None
         else
           let key = TrimSpace (takeWhile (\<lambda>c. c \<noteq> CHR ''='') line);
               value = TrimSpace (tl (dropWhile (\<lambda>c. c \<noteq> CHR ''='') line))
           in if key = [] \<or> value = [] then fileValue rest k
              else if key = k then Some (unquoteValue value)
              else fileValue rest k)"

text \<open>The names \<open>getEnvKey\<close> tries for a field with an \<^verbatim>\<open>env\<close> tag, in the order of the
  tag: global prefix, then accumulated prefix, then the trimmed name as it is written.\<close>

definition candidates :: "Loader \<Rightarrow> sfield \<Rightarrow> string \<Rightarrow> string list" where
  "candidates l field prefix =
     map (\<lambda>name. envPrefix l @ prefix @ TrimSpace name) (Split (tag_env field) CHR '','')"

section \<open>Examples\<close>

text \<open>An instance of the parameters for examples with no float and no duration: no text
  parses as either.\<close>

definition plainLib :: "unit stdlib" where
  "plainLib = \<lparr>ParseFloat = (\<lambda>s. None), FormatFloat = (\<lambda>x. ''0''), Float32 = (\<lambda>x. x),
               FloatZero = (), ParseDuration = (\<lambda>s. None), DurationString = (\<lambda>d. ''0s'')\<rparr>"

text \<open>A process with an empty environment, no file, no registered flag and no argument
  on its command line.\<close>

definition bareWorld :: world where
  "bareWorld = \<lparr>environ = Map.empty, statOK = (\<lambda>f. False), openFile = Map.empty, stderr = [],
                flags = Map.empty, flagsParsed = False, flagParse = (\<lambda>fs. Some fs)\<rparr>"

text \<open>An exported field without tags.\<close>

definition plainField :: "string \<Rightarrow> sfield" where
  "plainField n = \<lparr>Name = n, exported = True, tag_env = [], tag_flag = [], tag_default = [],
                   tag_usage = [], tag_required = [], tag_prefix = []\<rparr>"

text \<open>What a caller sees of a call of \<open>Load\<close>: the error, the structure, the standard
  error stream.\<close>

definition outcome ::
  "(error option \<times> 'f config \<times> world) option \<Rightarrow> (error option \<times> 'f config \<times> diag list) option" where
  "outcome r = map_option (\<lambda>(e, c, w). (e, c, stderr w)) r"

text \<open>\<^verbatim>\<open>Port int `env:"PORT" flag:"port" default:"8080"`\<close>\<close>

definition portField :: sfield where
  "portField = (plainField ''Port'')\<lparr>tag_env := ''PORT'', tag_flag := ''port'', tag_default := ''8080''\<rparr>"


text \<open>A process that has \<^verbatim>\<open>PORT=9000\<close> in its environment.\<close>

definition portWorld :: world where
  "portWorld = bareWorld\<lparr>environ := [''PORT'' \<mapsto> ''9000'']\<rparr>"

text \<open>\<^verbatim>\<open>Level int8 `default:"5"`\<close>\<close>

definition levelField :: sfield where
  "levelField = (plainField ''Level'')\<lparr>tag_default := ''5''\<rparr>"

text \<open>\<^verbatim>\<open>Database struct { Name string `env:"NAME" required:"true"` } `prefix:"DB_"`\<close>\<close>

definition nameField :: sfield where
  "nameField = (plainField ''Name'')\<lparr>tag_env := ''NAME'', tag_required := ''true''\<rparr>"

definition dbNodes :: "unit node list" where
  "dbNodes = [Struct ((plainField ''Database'')\<lparr>tag_prefix := ''DB_''\<rparr>)
                [Leaf nameField TString (VString [])]]"

text \<open>\<^verbatim>\<open>Port int `env:"PORT,SERVER_PORT"`\<close>, in a process that has
  \<^verbatim>\<open>SERVER_PORT=9000\<close> in its environment.\<close>

definition altPortField :: sfield where
  "altPortField = (plainField ''Port'')\<lparr>tag_env := ''PORT,SERVER_PORT''\<rparr>"

definition serverPortWorld :: world where
  "serverPortWorld = bareWorld\<lparr>environ := [''SERVER_PORT'' \<mapsto> ''9000'']\<rparr>"

text \<open>\<^verbatim>\<open>Port string `env:"port"`\<close>\<close>

definition lowerPortField :: sfield where
  "lowerPortField = (plainField ''Port'')\<lparr>tag_env := ''port''\<rparr>"

text \<open>\<^verbatim>\<open>Port int `env:"PORT" default:"5432"`\<close>, the port of a database beside the port
  of a server.\<close>

definition dbPortField :: sfield where
  "dbPortField = (plainField ''Port'')\<lparr>tag_env := ''PORT'', tag_default := ''5432''\<rparr>"

text \<open>A process with \<^verbatim>\<open>A=real\<close> in its environment, in a directory that holds the files
  \<^verbatim>\<open>app.env\<close> and \<^verbatim>\<open>.env\<close>.\<close>

definition filesWorld :: world where
  "filesWorld =
     bareWorld\<lparr>environ := [''A'' \<mapsto> ''real''],
       statOK := (\<lambda>f. f = ''.env''),
       openFile := [''app.env'' \<mapsto> \<lparr>flines = [''A=file'', ''B=2''], scanFails = False\<rparr>,
                    ''.env'' \<mapsto> \<lparr>flines = [''C=3''], scanFails = False\<rparr>]\<rparr>"

section \<open>Type conversion: one rule for each type\<close>

lemmas parse_defs = ParseInt_def ParseUint_def isDigit_def digitVal_def maxUint64_def

lemma setFieldValue_signed:
  "t \<in> {TInt, TInt8, TInt16, TInt32, TInt64}
   \<Longrightarrow> setFieldValue L t old v n = setSigned t old v n"
  by (auto simp: setFieldValue.simps)

lemma setFieldValue_unsigned:
  "t \<in> {TUint, TUint8, TUint16, TUint32, TUint64}
   \<Longrightarrow> setFieldValue L t old v n = setUnsigned t old v n"
  by (auto simp: setFieldValue.simps)

lemma setFieldValue_TString: "setFieldValue L TString old v n = (VString v, None)"
  by (simp add: setFieldValue.simps)

lemma setFieldValue_TSlice:
  "setFieldValue L (TSlice t) old v n = setSliceValue L t old v n"
  by (simp add: setFieldValue.simps)

lemma setElems_ok:
  "snd (setFieldValue L t (slice ! i) (TrimSpace part) (elemName n i)) = None
   \<Longrightarrow> setElems L t (part # parts) i n slice
       = setElems L t parts (Suc i) n
           (slice[i := fst (setFieldValue L t (slice ! i) (TrimSpace part) (elemName n i))])"
  by (auto simp: setElems.simps(2) split: prod.splits option.splits)

lemma setElems_fail:
  "snd (setFieldValue L t (slice ! i) (TrimSpace part) (elemName n i)) = Some e
   \<Longrightarrow> setElems L t (part # parts) i n slice
       = (slice[i := fst (setFieldValue L t (slice ! i) (TrimSpace part) (elemName n i))], Some e)"
  by (auto simp: setElems.simps(2) split: prod.splits option.splits)


section \<open>Width of integer fields\<close>

text \<open>
  C3. An 8-bit signed field is to reject \<^verbatim>\<open>"200"\<close> and \<^verbatim>\<open>"-129"\<close> and to accept
  \<^verbatim>\<open>"127"\<close> and \<^verbatim>\<open>"-128"\<close>. The code parses every signed integer at 64 bits and
  stores the result by conversion: \<^verbatim>\<open>"200"\<close> is accepted and stored as -56,
  \<^verbatim>\<open>"-129"\<close> is accepted and stored as 127; the two values in range are stored as they
  are.
\<close>

theorem C3_int8_not_range_checked:
  "setFieldValue L TInt8 old ''200'' fieldName = (VInt (- 56), None)
   \<and> setFieldValue L TInt8 old ''-129'' fieldName = (VInt 127, None)
   \<and> setFieldValue L TInt8 old ''127'' fieldName = (VInt 127, None)
   \<and> setFieldValue L TInt8 old ''-128'' fieldName = (VInt (- 128), None)"
  by (simp add: setFieldValue_signed setSigned_def SetInt_def parse_defs)

section \<open>Sequences\<close>

lemma Split_123: "Split ''1,2,3'' CHR '','' = [''1'', ''2'', ''3'']"
  by code_simp

lemma TrimSpace_digit: "TrimSpace ''1'' = ''1''" "TrimSpace ''2'' = ''2''" "TrimSpace ''3'' = ''3''"
  by code_simp+

lemma setFieldValue_TInt_digit:
  "setFieldValue L TInt old ''1'' n = (VInt 1, None)"
  "setFieldValue L TInt old ''2'' n = (VInt 2, None)"
  "setFieldValue L TInt old ''3'' n = (VInt 3, None)"
  by (simp_all add: setFieldValue_signed setSigned_def SetInt_def parse_defs)

text \<open>
  C6, as the code has it. Coercing \<^verbatim>\<open>"1,2,3"\<close> into a field that is a sequence of
  integers gives the sequence 1, 2, 3 and no error, whatever the field held. Coercing the
  empty string returns no error and leaves the field untouched: the field holds what it
  held before, which is the empty sequence when the field was at its zero value.
\<close>

theorem C6_sequence_coercion:
  "setFieldValue L (TSlice TInt) old ''1,2,3'' fieldName = (VSlice [VInt 1, VInt 2, VInt 3], None)
   \<and> setFieldValue L (TSlice t) old [] fieldName = (old, None)
   \<and> setFieldValue L (TSlice t) (zero_value L (TSlice t)) [] fieldName = (VSlice [], None)"
proof (intro conjI)
  have "setElems L TInt [''1'', ''2'', ''3''] 0 fieldName [VInt 0, VInt 0, VInt 0]
          = ([VInt 1, VInt 2, VInt 3], None)"
    by (simp add: setElems_ok TrimSpace_digit setFieldValue_TInt_digit)
  then show "setFieldValue L (TSlice TInt) old ''1,2,3'' fieldName
               = (VSlice [VInt 1, VInt 2, VInt 3], None)"
    by (simp add: setFieldValue_TSlice setSliceValue.simps Split_123 numeral_3_eq_3)
next
  show "setFieldValue L (TSlice t) old [] fieldName = (old, None)"
    by (simp add: setFieldValue_TSlice setSliceValue.simps)
next
  show "setFieldValue L (TSlice t) (zero_value L (TSlice t)) [] fieldName = (VSlice [], None)"
    by (simp add: setFieldValue_TSlice setSliceValue.simps)
qed

text \<open>
  C6 as the specification states it fails: the empty string coerced into a field that
  holds the sequence 7 gives no error and leaves the sequence 7 in the field, which is not
  the empty sequence.
\<close>

theorem C6_counterexample:
  "setFieldValue plainLib (TSlice TInt) (VSlice [VInt 7]) [] ''Ports'' = (VSlice [VInt 7], None)
   \<and> fst (setFieldValue plainLib (TSlice TInt) (VSlice [VInt 7]) [] ''Ports'') \<noteq> VSlice []"
  by (simp add: setFieldValue_TSlice setSliceValue.simps)

section \<open>Which files are loaded\<close>

text \<open>
  C9, as the code has it. A loader made with a list of files alone still discovers the
  conventional files: the listed files are loaded first, then the conventional files
  that exist. Only with discovery switched off as well, before or after the list is
  given, are the listed files the only ones loaded.
\<close>

theorem C9_explicit_files_then_discovered:
  "filesToLoad (NewLoader [WithEnvFiles fs]) w = fs @ filter (statOK w) commonEnvFiles
   \<and> filesToLoad (NewLoader [WithEnvFiles fs, WithAutoLoadEnv False]) w = fs
   \<and> filesToLoad (NewLoader [WithAutoLoadEnv False, WithEnvFiles fs]) w = fs
   \<and> loadEnvFiles (NewLoader [WithEnvFiles fs, WithAutoLoadEnv False]) w
       = loadEach (NewLoader [WithEnvFiles fs, WithAutoLoadEnv False]) fs w"
  by (simp add: filesToLoad_def NewLoader_def loadEnvFiles_def)


section \<open>The walk over the structure\<close>

text \<open>\<open>processField\<close> reads the environment and the flags only, and the walk writes to
  the standard error stream only.\<close>

lemma Getenv_cong: "environ w' = environ w \<Longrightarrow> Getenv w' k = Getenv w k"
  by (simp add: Getenv_def)

lemma envNameLoop_cong:
  "environ w' = environ w \<Longrightarrow> envNameLoop l w' p ns = envNameLoop l w p ns"
  by (induction ns) (simp_all add: Getenv_def Let_def)

lemma getEnvKey_cong:
  "environ w' = environ w \<Longrightarrow> getEnvKey l w' f p = getEnvKey l w f p"
  using envNameLoop_cong [of w' w l p] Getenv_cong [of w' w]
  by (simp add: getEnvKey_def)

lemma processField_cong:
  assumes "environ w' = environ w" "flags w' = flags w"
  shows "processField L l w' f t v p = processField L l w f t v p"
proof -
  have a: "getEnvKey l w' f p = getEnvKey l w f p"
    using assms(1) by (rule getEnvKey_cong)
  have b: "getFlagValue w' = getFlagValue w"
    using assms(2) by (simp add: getFlagValue_def fun_eq_iff)
  have c: "Getenv w' = Getenv w"
    using assms(1) by (simp add: Getenv_def fun_eq_iff)
  show ?thesis
    unfolding processField_def a b c by (rule refl)
qed

lemma leafError_cong:
  "environ w' = environ w \<Longrightarrow> flags w' = flags w \<Longrightarrow> leafError L l w' = leafError L l w"
  using processField_cong [of w' w L l]
  by (auto simp: leafError_def fun_eq_iff)

lemma leafAfter_cong:
  "environ w' = environ w \<Longrightarrow> flags w' = flags w \<Longrightarrow> leafAfter L l w' = leafAfter L l w"
  using processField_cong [of w' w L l]
  by (auto simp: leafAfter_def fun_eq_iff)


lemma map_filter_app:
  "List.map_filter f (xs @ ys) = List.map_filter f xs @ List.map_filter f ys"
  by (simp add: List.map_filter_def)

lemma processStruct_continue:
  "\<not> failOnError l \<Longrightarrow>
     fst (processStruct L l prefix nodes w) = None
     \<and> environ (snd (snd (processStruct L l prefix nodes w))) = environ w
     \<and> flags (snd (snd (processStruct L l prefix nodes w))) = flags w
     \<and> stderr (snd (snd (processStruct L l prefix nodes w)))
         = stderr w @ map ConfigWarning (List.map_filter (leafError L l w) (leaves prefix nodes))
     \<and> leaves prefix (fst (snd (processStruct L l prefix nodes w)))
         = map (leafAfter L l w) (leaves prefix nodes)"
proof (induction L l prefix nodes w rule: processStruct.induct)
  case (1 L l prefix w)
  show ?case by (simp add: List.map_filter_simps)
next
  case (2 L l prefix field t v rest w)
  note nf = \<open>\<not> failOnError l\<close>
  show ?case
  proof (cases "exported field")
    case False
    from "2.IH"(1)[OF False nf] False show ?thesis
      by (simp add: case_prod_beta)
  next
    case True
    then have nn: "\<not> \<not> exported field" by simp
    obtain v' err where pf: "processField L l w field t v prefix = (v', err)"
      by (cases "processField L l w field t v prefix")
    show ?thesis
    proof (cases err)
      case None
      from "2.IH"(2)[OF nn pf[symmetric] None nf] True pf None show ?thesis
        by (simp add: case_prod_beta List.map_filter_simps leafError_def leafAfter_def)
    next
      case (Some x)
      let ?w1 = "w\<lparr>stderr := stderr w @ [ConfigWarning x]\<rparr>"
      have c1: "leafError L l ?w1 = leafError L l w" by (rule leafError_cong) simp_all
      have c2: "leafAfter L l ?w1 = leafAfter L l w" by (rule leafAfter_cong) simp_all
      from "2.IH"(3)[OF nn pf[symmetric] Some nf nf] True pf Some nf show ?thesis
        by (simp add: case_prod_beta List.map_filter_simps leafError_def leafAfter_def c1 c2)
    qed
  qed
next
  case (3 L l prefix field sub rest w)
  note nf = \<open>\<not> failOnError l\<close>
  show ?case
  proof (cases "exported field")
    case False
    from "3.IH"(1)[OF False nf] False show ?thesis
      by (simp add: case_prod_beta)
  next
    case True
    then have nn: "\<not> \<not> exported field" by simp
    let ?r = "processStruct L l (getNestedPrefix field prefix) sub w"
    note h1 = "3.IH"(2)[OF nn nf]
    from h1 have e1: "fst ?r = None" by simp
    have p1: "(fst ?r, snd ?r) = ?r" by simp
    have p2: "(fst (snd ?r), snd (snd ?r)) = snd ?r" by simp
    note h2 = "3.IH"(3)[OF nn p1 e1 p2 nf]
    have c1: "leafError L l (snd (snd ?r)) = leafError L l w"
      using h1 by (intro leafError_cong) simp_all
    have c2: "leafAfter L l (snd (snd ?r)) = leafAfter L l w"
      using h1 by (intro leafAfter_cong) simp_all
    from h1 h2 True show ?thesis
      by (simp add: case_prod_beta map_filter_app c1 c2)
  qed
qed

lemma processStruct_failfast:
  "failOnError l \<Longrightarrow>
     snd (snd (processStruct L l prefix nodes w)) = w
     \<and> fst (processStruct L l prefix nodes w)
         = (case List.map_filter (leafError L l w) (leaves prefix nodes) of
              [] \<Rightarrow> None | x # xs \<Rightarrow> Some x)"
proof (induction L l prefix nodes w rule: processStruct.induct)
  case (1 L l prefix w)
  show ?case by (simp add: List.map_filter_simps)
next
  case (2 L l prefix field t v rest w)
  note ff = \<open>failOnError l\<close>
  show ?case
  proof (cases "exported field")
    case False
    from "2.IH"(1)[OF False ff] False show ?thesis
      by (simp add: case_prod_beta)
  next
    case True
    then have nn: "\<not> \<not> exported field" by simp
    obtain v' err where pf: "processField L l w field t v prefix = (v', err)"
      by (cases "processField L l w field t v prefix")
    show ?thesis
    proof (cases err)
      case None
      from "2.IH"(2)[OF nn pf[symmetric] None ff] True pf None show ?thesis
        by (simp add: case_prod_beta List.map_filter_simps leafError_def)
    next
      case (Some x)
      from True pf Some ff show ?thesis
        by (simp add: List.map_filter_simps leafError_def)
    qed
  qed
next
  case (3 L l prefix field sub rest w)
  note ff = \<open>failOnError l\<close>
  show ?case
  proof (cases "exported field")
    case False
    from "3.IH"(1)[OF False ff] False show ?thesis
      by (simp add: case_prod_beta)
  next
    case True
    then have nn: "\<not> \<not> exported field" by simp
    let ?r = "processStruct L l (getNestedPrefix field prefix) sub w"
    note h1 = "3.IH"(2)[OF nn ff]
    show ?thesis
    proof (cases "fst ?r")
      case None
      have p1: "(fst ?r, snd ?r) = ?r" by simp
      have p2: "(fst (snd ?r), snd (snd ?r)) = snd ?r" by simp
      note h2 = "3.IH"(3)[OF nn p1 None p2 ff]
      from h1 None
      have "List.map_filter (leafError L l w) (leaves (getNestedPrefix field prefix) sub) = []"
        by (simp split: list.splits)
      with h1 h2 None True show ?thesis
        by (simp add: case_prod_beta map_filter_app)
    next
      case (Some x)
      with h1 True show ?thesis
        by (simp add: case_prod_beta map_filter_app split: list.splits)
    qed
  qed
qed

lemma Load_walk:
  "beforeWalk L l nodes w = Some w4 \<Longrightarrow>
   Load L l (PtrToStruct nodes) w
     = Some (case processStruct L l [] nodes w4 of (e, ns, w5) \<Rightarrow> (e, PtrToStruct ns, w5))"
  by (auto simp: Load_def beforeWalk_def Let_def
           split: prod.splits option.splits bool.splits if_splits)

section \<open>Sequences are set whole or not at all\<close>

lemma setFieldValue_error_unchanged:
  "snd (setFieldValue L t old v n) \<noteq> None \<Longrightarrow> fst (setFieldValue L t old v n) = old"
  by (cases t)
     (auto simp: setFieldValue.simps setSliceValue.simps setSigned_def setUnsigned_def Let_def
           split: option.splits prod.splits if_splits)

lemma setElems_fails:
  "j < length parts
   \<Longrightarrow> snd (setFieldValue L t z (TrimSpace (parts ! j)) (elemName n (i + j))) \<noteq> None
   \<Longrightarrow> (\<forall>k. i \<le> k \<and> k < length slice \<longrightarrow> slice ! k = z)
   \<Longrightarrow> i + length parts \<le> length slice
   \<Longrightarrow> snd (setElems L t parts i n slice) \<noteq> None"
proof (induction parts arbitrary: i j slice)
  case Nil
  then show ?case by simp
next
  case (Cons part parts)
  from Cons.prems(3,4) have zi: "slice ! i = z" by simp
  let ?r = "setFieldValue L t (slice ! i) (TrimSpace part) (elemName n i)"
  show ?case
  proof (cases "snd ?r")
    case (Some e)
    then show ?thesis by (simp add: setElems_fail)
  next
    case None
    with Cons.prems(2) zi have "j \<noteq> 0" by (cases j) auto
    then obtain j' where j: "j = Suc j'" by (cases j) auto
    have "snd (setElems L t parts (Suc i) n (slice[i := fst ?r])) \<noteq> None"
    proof (rule Cons.IH[of j'])
      show "j' < length parts" using Cons.prems(1) j by simp
      show "snd (setFieldValue L t z (TrimSpace (parts ! j')) (elemName n (Suc i + j'))) \<noteq> None"
        using Cons.prems(2) j by simp
      show "\<forall>k. Suc i \<le> k \<and> k < length (slice[i := fst ?r]) \<longrightarrow> slice[i := fst ?r] ! k = z"
        using Cons.prems(3) by simp
      show "Suc i + length parts \<le> length (slice[i := fst ?r])"
        using Cons.prems(4) by simp
    qed
    with None show ?thesis by (simp add: setElems_ok)
  qed
qed

text \<open>
  C5. Coercion into a sequence field is atomic. When \<open>setFieldValue\<close> on a sequence
  field returns an error, the field holds what it held before. When the coercion of any
  one part of the raw string fails, on the fresh element it is coerced into, the whole
  call returns an error, and so leaves the field as it was: no converted element is
  ever assigned.
\<close>

theorem C5_sequence_atomic:
  "(snd (setFieldValue L (TSlice t) old v n) \<noteq> None
      \<longrightarrow> fst (setFieldValue L (TSlice t) old v n) = old)
   \<and> (v \<noteq> [] \<and> i < length (Split v CHR '','')
        \<and> snd (setFieldValue L t (zero_value L t) (TrimSpace (Split v CHR '','' ! i))
                 (elemName n i)) \<noteq> None
      \<longrightarrow> snd (setFieldValue L (TSlice t) old v n) \<noteq> None
          \<and> fst (setFieldValue L (TSlice t) old v n) = old)"
proof (intro conjI impI)
  show "fst (setFieldValue L (TSlice t) old v n) = old"
    if "snd (setFieldValue L (TSlice t) old v n) \<noteq> None"
    using that by (rule setFieldValue_error_unchanged)
next
  assume a: "v \<noteq> [] \<and> i < length (Split v CHR '','')
        \<and> snd (setFieldValue L t (zero_value L t) (TrimSpace (Split v CHR '','' ! i))
                 (elemName n i)) \<noteq> None"
  let ?parts = "Split v CHR '',''"
  have "snd (setElems L t ?parts 0 n (replicate (length ?parts) (zero_value L t))) \<noteq> None"
    by (rule setElems_fails[where j = i and z = "zero_value L t" and i = 0])
       (use a in simp_all)
  with a show e: "snd (setFieldValue L (TSlice t) old v n) \<noteq> None"
    by (auto simp: setFieldValue_TSlice setSliceValue.simps Let_def split: prod.splits option.splits)
  then show "fst (setFieldValue L (TSlice t) old v n) = old"
    by (rule setFieldValue_error_unchanged)
qed

section \<open>Files never overwrite the environment\<close>

lemma envFileLoop_environ:
  "environ (snd (envFileLoop lines n fails w)) k
     = (case environ w k of Some v \<Rightarrow> Some v | None \<Rightarrow> fileValue lines k)"
proof (induction lines arbitrary: n w)
  case Nil
  show ?case by (simp split: option.splits)
next
  case (Cons ln rest)
  show ?case
    by (simp add: Cons.IH Let_def SplitN2_def LookupEnv_def Setenv_def split: option.splits)
qed

lemma loadEnvFile_environ:
  "openFile w f = Some file \<Longrightarrow>
   environ (snd (loadEnvFile l w f)) k
     = (case environ w k of Some v \<Rightarrow> Some v | None \<Rightarrow> fileValue (flines file) k)"
  by (simp add: loadEnvFile_def envFileLoop_environ)

lemma loadEnvFile_present:
  "environ w k = Some v \<Longrightarrow> environ (snd (loadEnvFile l w f)) k = Some v"
  by (cases "openFile w f") (simp_all add: loadEnvFile_def envFileLoop_environ)

lemma loadEach_present:
  "environ w k = Some v \<Longrightarrow> environ (snd (loadEach l files w)) k = Some v"
proof (induction files arbitrary: w)
  case Nil
  then show ?case by simp
next
  case (Cons fname rest)
  from Cons.prems have "environ (snd (loadEnvFile l w fname)) k = Some v"
    by (rule loadEnvFile_present)
  with Cons.IH[of "snd (loadEnvFile l w fname)"] show ?case
    by (cases "loadEnvFile l w fname") (auto split: option.splits)
qed

text \<open>
  C7. A key that is set in the environment keeps its value when one file is loaded and
  when all files of the loader are loaded, whatever the files hold and in whatever
  order they come. A key that is not set takes, from a file that is loaded, the value
  the file binds to it.
\<close>

theorem C7_env_file_never_overwrites:
  "(environ w k = Some v
      \<longrightarrow> environ (snd (loadEnvFile l w f)) k = Some v
          \<and> environ (snd (loadEnvFiles l w)) k = Some v)
   \<and> (environ w k = None \<and> openFile w f = Some file
      \<longrightarrow> environ (snd (loadEnvFile l w f)) k = fileValue (flines file) k)"
  by (simp add: loadEnvFile_present loadEach_present loadEnvFiles_def loadEnvFile_environ)

section \<open>Names in the environment\<close>

lemma withPrefixes_eq: "withPrefixes l p name = envPrefix l @ p @ name"
  by (simp add: withPrefixes_def)

lemma envNameLoop_first:
  "i < length ns
   \<Longrightarrow> Getenv w (withPrefixes l p (TrimSpace (ns ! i))) \<noteq> []
   \<Longrightarrow> (\<forall>j<i. Getenv w (withPrefixes l p (TrimSpace (ns ! j))) = [])
   \<Longrightarrow> envNameLoop l w p ns = Some (withPrefixes l p (TrimSpace (ns ! i)))"
proof (induction ns arbitrary: i)
  case Nil
  then show ?case by simp
next
  case (Cons a ns)
  show ?case
  proof (cases i)
    case 0
    with Cons.prems show ?thesis by (simp add: Let_def)
  next
    case (Suc i')
    from Cons.prems(3) Suc have "Getenv w (withPrefixes l p (TrimSpace a)) = []" by auto
    moreover have "envNameLoop l w p ns = Some (withPrefixes l p (TrimSpace (ns ! i')))"
      using Cons.prems Suc by (intro Cons.IH) auto
    ultimately show ?thesis using Suc by (simp add: Let_def)
  qed
qed

lemma getEnvKey_first:
  assumes "tag_env f \<noteq> []" "i < length (candidates l f p)"
    "Getenv w (candidates l f p ! i) \<noteq> []"
    "\<forall>j<i. Getenv w (candidates l f p ! j) = []"
  shows "getEnvKey l w f p = candidates l f p ! i"
proof -
  let ?ns = "Split (tag_env f) CHR '',''"
  have "envNameLoop l w p ?ns = Some (withPrefixes l p (TrimSpace (?ns ! i)))"
    using assms(2-4) by (intro envNameLoop_first) (auto simp: candidates_def withPrefixes_eq)
  with assms(1,2) show ?thesis
    by (simp add: getEnvKey_def candidates_def withPrefixes_eq)
qed

lemma processField_from_env:
  assumes "getFlagName f = [] \<or> getFlagValue w (getFlagName f) = []"
    "getEnvKey l w f p \<noteq> []" "Getenv w (getEnvKey l w f p) \<noteq> []"
  shows "processField L l w f t v p = setFieldValue L t v (Getenv w (getEnvKey l w f p)) (Name f)"
  using assms by (auto simp: processField_def Let_def)

lemma processField_from_flag:
  assumes "getFlagName f \<noteq> []" "getFlagValue w (getFlagName f) \<noteq> []"
  shows "processField L l w f t v p = setFieldValue L t v (getFlagValue w (getFlagName f)) (Name f)"
  using assms by (auto simp: processField_def Let_def)

lemma processField_required:
  assumes "tag_required f = ''true''" "resolvesNothing l w f p"
  shows "processField L l w f t v p = (v, Some (RequiredFieldMissing (Name f)))"
  using assms by (auto simp: processField_def resolvesNothing_def Let_def)

section \<open>Names of flags\<close>





section \<open>Evaluating the examples\<close>

lemmas str_defs = TrimSpace_def isSpace_def ToLower_def ToUpper_def upperLetters_def
  lowerLetters_def isUpper_def HasPrefix_def FormatInt_def FormatUint.simps digitChar_def
  ReplaceAll.simps toKebabCase_def toSnakeCase_def

lemma beforeWalk_quiet:
  "filesToLoad l w = [] \<Longrightarrow> registerFlags L l [] nodes (flags w) = (None, fs)
   \<Longrightarrow> flagSet l = CommandLine \<Longrightarrow> \<not> flagsParsed w \<Longrightarrow> flagParse w fs = Some fs'
   \<Longrightarrow> beforeWalk L l nodes w = Some (w\<lparr>flags := fs', flagsParsed := True\<rparr>)"
  by (simp add: beforeWalk_def loadEnvFiles_def Let_def)

lemma bare_files [simp]:
  "filesToLoad (NewLoader []) bareWorld = []"
  "filesToLoad (NewLoader [WithFailOnError b]) bareWorld = []"
  "filesToLoad (NewLoader []) portWorld = []"
  by (simp_all add: filesToLoad_def NewLoader_def bareWorld_def portWorld_def commonEnvFiles_def)

lemma loader_facts [simp]:
  "flagSet (NewLoader []) = CommandLine" "failOnError (NewLoader [])"
  "envPrefix (NewLoader []) = []"
  "flagSet (NewLoader [WithFailOnError b]) = CommandLine"
  "failOnError (NewLoader [WithFailOnError b]) = b"
  "envPrefix (NewLoader [WithFailOnError b]) = []"
  by (simp_all add: NewLoader_def)

lemma bare_facts [simp]:
  "flags bareWorld = Map.empty" "\<not> flagsParsed bareWorld" "flagParse bareWorld fs = Some fs"
  "stderr bareWorld = []" "environ bareWorld = Map.empty"
  "flags portWorld = Map.empty" "\<not> flagsParsed portWorld" "flagParse portWorld fs = Some fs"
  "stderr portWorld = []" "environ portWorld = [''PORT'' \<mapsto> ''9000'']"
  by (simp_all add: bareWorld_def portWorld_def)

lemma portField_facts [simp]:
  "exported portField" "Name portField = ''Port''" "getFlagName portField = ''port''"
  "tag_default portField = ''8080''" "tag_required portField = []" "tag_env portField = ''PORT''"
  by (simp_all add: portField_def plainField_def getFlagName_def str_defs)

lemma parse_8080: "ParseInt ''8080'' 64 = (8080, None)"
  by (simp add: parse_defs)

lemma format_8080: "FormatInt 8080 = ''8080''"
  by (simp add: str_defs)

lemma register_port:
  "registerFlags plainLib l [] [Leaf portField TInt (VInt 0)] Map.empty
     = (None, [''port'' \<mapsto> ''8080''])"
  by (simp add: registerFieldFlag_def parse_8080 format_8080)

lemma getEnvKey_port: "getEnvKey (NewLoader []) w portField [] = ''PORT''"
  by (simp add: getEnvKey_def Let_def withPrefixes_def str_defs)

lemma set_8080: "setFieldValue L TInt old ''8080'' n = (VInt 8080, None)"
  by (simp add: setFieldValue_signed setSigned_def SetInt_def parse_8080)

text \<open>
  C1. The documented precedence is flag, then environment, then default, and the value
  of the environment is to be assigned when the flag is not given on the command line.
  The code registers each flag with the field's default and then reads the flag's text,
  which is that default when the flag is not given: for
  \<^verbatim>\<open>Port int `env:"PORT" flag:"port" default:"8080"`\<close>, with \<^verbatim>\<open>PORT=9000\<close> in the
  environment and no argument on the command line, \<open>Load\<close> returns no error and assigns
  8080, although the environment variable of the field holds 9000.
\<close>

theorem C1_unsupplied_flag_beats_environment:
  "outcome (Load plainLib (NewLoader []) (PtrToStruct [Leaf portField TInt (VInt 0)]) portWorld)
     = Some (None, PtrToStruct [Leaf portField TInt (VInt 8080)], [])
   \<and> Getenv portWorld (getEnvKey (NewLoader []) portWorld portField []) = ''9000''"
proof
  let ?w4 = "portWorld\<lparr>flags := [''port'' \<mapsto> ''8080''], flagsParsed := True\<rparr>"
  have bw: "beforeWalk plainLib (NewLoader []) [Leaf portField TInt (VInt 0)] portWorld = Some ?w4"
    by (rule beforeWalk_quiet) (simp_all add: register_port del: registerFlags.simps)
  have pf: "processField plainLib (NewLoader []) ?w4 portField TInt (VInt 0) [] = (VInt 8080, None)"
    by (simp add: processField_from_flag getFlagValue_def set_8080)
  show "outcome (Load plainLib (NewLoader []) (PtrToStruct [Leaf portField TInt (VInt 0)]) portWorld)
          = Some (None, PtrToStruct [Leaf portField TInt (VInt 8080)], [])"
    by (simp add: Load_walk[OF bw] pf outcome_def)
  show "Getenv portWorld (getEnvKey (NewLoader []) portWorld portField []) = ''9000''"
    by (simp add: getEnvKey_port Getenv_def)
qed

lemma levelField_facts [simp]:
  "exported levelField" "Name levelField = ''Level''" "getFlagName levelField = ''level''"
  by (simp_all add: levelField_def plainField_def getFlagName_def str_defs)

text \<open>
  C8. Under the policy to continue, \<open>Load\<close> is to return no error and to write every
  error of a field to the standard error stream. An error of the registration of flags
  is returned under either policy: for a structure with the field
  \<^verbatim>\<open>Level int8 `default:"5"`\<close> and a loader made with \<^verbatim>\<open>WithFailOnError(false)\<close>,
  \<open>Load\<close> returns the error that the flag type int8 is not supported, writes nothing to
  the standard error stream and leaves the field as it was.
\<close>

theorem C8_register_error_returned:
  "outcome (Load plainLib (NewLoader [WithFailOnError False])
              (PtrToStruct [Leaf levelField TInt8 (VInt 0)]) bareWorld)
     = Some (Some (FailedRegisterFlags (UnsupportedFlagType ''int8'' ''Level'')),
             PtrToStruct [Leaf levelField TInt8 (VInt 0)], [])"
proof -
  have "loadEnvFiles (NewLoader [WithFailOnError False]) bareWorld = (None, bareWorld)"
    by (simp add: loadEnvFiles_def)
  moreover have "registerFlags plainLib (NewLoader [WithFailOnError False]) []
                   [Leaf levelField TInt8 (VInt 0)] Map.empty
                 = (Some (UnsupportedFlagType ''int8'' ''Level''), Map.empty)"
    by (simp add: registerFieldFlag_def)
  ultimately show ?thesis
    by (simp add: Load_def outcome_def)
qed

text \<open>Under the policy to continue the walk itself returns no error, so that an error
  of the registration of flags is the only error \<open>Load\<close> returns for a pointer to a
  structure.\<close>

lemma processStruct_continue_None:
  "\<not> failOnError l \<Longrightarrow> processStruct L l prefix nodes w = (e, r) \<Longrightarrow> e = None"
  using processStruct_continue[of l L prefix nodes w] by simp

lemma Load_continue_error:
  "\<not> failOnError l \<Longrightarrow> Load L l (PtrToStruct nodes) w = Some (Some e, c, w')
   \<Longrightarrow> \<exists>x. e = FailedRegisterFlags x"
  by (auto simp: Load_def Let_def split: prod.splits option.splits bool.splits if_splits
           dest: processStruct_continue_None)

lemma files_facts [simp]:
  "statOK filesWorld = (\<lambda>f. f = ''.env'')"
  "environ filesWorld = [''A'' \<mapsto> ''real'']"
  "openFile filesWorld ''app.env'' = Some \<lparr>flines = [''A=file'', ''B=2''], scanFails = False\<rparr>"
  "openFile filesWorld ''.env'' = Some \<lparr>flines = [''C=3''], scanFails = False\<rparr>"
  by (simp_all add: filesWorld_def)

lemma fileValue_app:
  "fileValue [''A=file'', ''B=2''] ''B'' = Some ''2''"
  by (simp add: Let_def unquoteValue_def str_defs)

lemma fileValue_env:
  "fileValue [''C=3''] ''C'' = Some ''3''"
  by (simp add: Let_def unquoteValue_def str_defs)

text \<open>
  C9 as the specification states it fails: a loader made with the list \<^verbatim>\<open>app.env\<close> and
  nothing else, in a directory that holds \<^verbatim>\<open>.env\<close>, loads \<^verbatim>\<open>.env\<close> after
  \<^verbatim>\<open>app.env\<close>, and the key that only \<^verbatim>\<open>.env\<close> binds is in the environment
  afterwards.
\<close>

theorem C9_counterexample:
  "filesToLoad (NewLoader [WithEnvFiles [''app.env'']]) filesWorld = [''app.env'', ''.env'']
   \<and> environ (snd (loadEnvFiles (NewLoader [WithEnvFiles [''app.env'']]) filesWorld)) ''C''
       = Some ''3''"
proof
  let ?l = "NewLoader [WithEnvFiles [''app.env'']]"
  show f: "filesToLoad ?l filesWorld = [''app.env'', ''.env'']"
    by (simp add: filesToLoad_def NewLoader_def commonEnvFiles_def)
  let ?w1 = "snd (loadEnvFile ?l filesWorld ''app.env'')"
  have o: "openFile ?w1 ''.env'' = Some \<lparr>flines = [''C=3''], scanFails = False\<rparr>"
    by (simp add: loadEnvFile_def Let_def SplitN2_def LookupEnv_def Setenv_def unquoteValue_def
          str_defs)
  have e: "fst (loadEnvFile ?l filesWorld ''app.env'') = None"
    by (simp add: loadEnvFile_def Let_def SplitN2_def LookupEnv_def Setenv_def unquoteValue_def
          str_defs)
  have c: "environ ?w1 ''C'' = None"
    by (simp add: loadEnvFile_environ[of filesWorld "''app.env''"] Let_def str_defs)
  have "environ (snd (loadEnvFile ?l ?w1 ''.env'')) ''C'' = Some ''3''"
    by (simp add: loadEnvFile_environ[OF o] c fileValue_env del: fileValue.simps)
  moreover have "snd (loadEnvFiles ?l filesWorld)
                   = snd (loadEnvFile ?l ?w1 ''.env'')"
    using e by (simp add: loadEnvFiles_def f case_prod_beta split: option.splits)
  ultimately show "environ (snd (loadEnvFiles ?l filesWorld)) ''C'' = Some ''3''"
    by simp
qed

text \<open>The parts of \<^verbatim>\<open>"1,x,3"\<close> are coerced into a field that holds the sequence 7: the
  second part is no integer, the call returns an error and the field still holds 7.\<close>

theorem C5_witness:
  "snd (setFieldValue plainLib (TSlice TInt) (VSlice [VInt 7]) ''1,x,3'' ''Ports'') \<noteq> None
   \<and> fst (setFieldValue plainLib (TSlice TInt) (VSlice [VInt 7]) ''1,x,3'' ''Ports'')
       = VSlice [VInt 7]"
proof -
  have s: "Split ''1,x,3'' CHR '','' = [''1'', ''x'', ''3'']" by simp
  have "snd (setFieldValue plainLib TInt (zero_value plainLib TInt) (TrimSpace ''x'')
               (elemName ''Ports'' 1)) \<noteq> None"
    by (simp add: setFieldValue_signed setSigned_def parse_defs str_defs)
  with C5_sequence_atomic[of plainLib TInt "VSlice [VInt 7]" "''1,x,3''" "''Ports''" 1]
  show ?thesis by (simp add: s)
qed

text \<open>With \<^verbatim>\<open>A=real\<close> in the environment and the lines \<^verbatim>\<open>A=file\<close> and \<^verbatim>\<open>B=2\<close> in
  \<^verbatim>\<open>app.env\<close>, the key \<^verbatim>\<open>A\<close> keeps its value and the key \<^verbatim>\<open>B\<close> takes the value of the
  file.\<close>

theorem C7_witness:
  "environ (snd (loadEnvFile (NewLoader []) filesWorld ''app.env'')) ''A'' = Some ''real''
   \<and> environ (snd (loadEnvFiles (NewLoader []) filesWorld)) ''A'' = Some ''real''
   \<and> environ (snd (loadEnvFile (NewLoader []) filesWorld ''app.env'')) ''B'' = Some ''2''"
  using C7_env_file_never_overwrites[of filesWorld "''A''" "''real''" "NewLoader []" "''app.env''"]
    C7_env_file_never_overwrites[of filesWorld "''B''" _ "NewLoader []" "''app.env''"
      "\<lparr>flines = [''A=file'', ''B=2''], scanFails = False\<rparr>"]
  by (simp add: fileValue_app del: fileValue.simps)

section \<open>Required fields\<close>

lemma map_filter_none:
  "\<forall>x\<in>set xs. f x = None \<Longrightarrow> List.map_filter f xs = []"
  by (induction xs) (simp_all add: List.map_filter_simps)

lemma processField_nothing:
  assumes "tag_required f \<noteq> ''true''" "resolvesNothing l w f p"
  shows "processField L l w f t v p = (v, None)"
  using assms by (auto simp: processField_def resolvesNothing_def Let_def)

text \<open>
  C2, as the code has it. Let \<open>Load\<close> get as far as the walk, and let the walk reach a
  field tagged required for which flag, environment and default all come up empty.
  Then \<open>processField\<close> reports the error that the field is missing, naming the field
  by its own identifier, without any prefix, and leaves the field as it is. Under the
  policy to fail, \<open>Load\<close> returns an error, and it returns this one when no field
  reached before fails. Under the policy to continue, \<open>Load\<close> returns no error, the
  standard error stream holds the warning with this error, and the field is unchanged.
\<close>

theorem C2_required_field_missing:
  "beforeWalk L l nodes w = Some w4 \<and> (p, f, t, v) \<in> set (leaves [] nodes)
   \<and> tag_required f = ''true'' \<and> resolvesNothing l w4 f p
   \<longrightarrow> processField L l w4 f t v p = (v, Some (RequiredFieldMissing (Name f)))
     \<and> (failOnError l \<longrightarrow> (\<exists>e c. Load L l (PtrToStruct nodes) w = Some (Some e, c, w4)))
     \<and> (failOnError l
          \<and> (\<exists>pre post. leaves [] nodes = pre @ (p, f, t, v) # post
                \<and> (\<forall>x\<in>set pre. leafError L l w4 x = None))
        \<longrightarrow> (\<exists>c. Load L l (PtrToStruct nodes) w
                   = Some (Some (RequiredFieldMissing (Name f)), c, w4)))
     \<and> (\<not> failOnError l
        \<longrightarrow> (\<exists>nodes' w'. Load L l (PtrToStruct nodes) w = Some (None, PtrToStruct nodes', w')
               \<and> ConfigWarning (RequiredFieldMissing (Name f)) \<in> set (stderr w')
               \<and> (p, f, t, v) \<in> set (leaves [] nodes')))"
proof (intro impI, elim conjE)
  assume bw: "beforeWalk L l nodes w = Some w4"
    and mem: "(p, f, t, v) \<in> set (leaves [] nodes)"
    and req: "tag_required f = ''true''"
    and rn: "resolvesNothing l w4 f p"
  let ?e = "RequiredFieldMissing (Name f)"
  let ?r = "processStruct L l [] nodes w4"
  let ?errs = "List.map_filter (leafError L l w4) (leaves [] nodes)"
  have pf: "processField L l w4 f t v p = (v, Some ?e)"
    using req rn by (rule processField_required)
  have le: "leafError L l w4 (p, f, t, v) = Some ?e"
    by (simp add: leafError_def pf)
  have la: "leafAfter L l w4 (p, f, t, v) = (p, f, t, v)"
    by (simp add: leafAfter_def pf)
  have em: "?e \<in> set ?errs"
    using mem le by (force simp: List.map_filter_def)
  have ld: "Load L l (PtrToStruct nodes) w
              = Some (fst ?r, PtrToStruct (fst (snd ?r)), snd (snd ?r))"
    by (simp add: Load_walk[OF bw] case_prod_beta)
  have fail_any: "\<exists>e c. Load L l (PtrToStruct nodes) w = Some (Some e, c, w4)"
    if ff: "failOnError l"
  proof -
    from em obtain e es where "?errs = e # es"
      by (cases ?errs) auto
    with processStruct_failfast[OF ff, of L "[]" nodes w4] ld show ?thesis
      by simp
  qed
  have fail_this: "\<exists>c. Load L l (PtrToStruct nodes) w = Some (Some ?e, c, w4)"
    if ff: "failOnError l"
      and first: "\<exists>pre post. leaves [] nodes = pre @ (p, f, t, v) # post
                    \<and> (\<forall>x\<in>set pre. leafError L l w4 x = None)"
  proof -
    from first obtain pre post where d: "leaves [] nodes = pre @ (p, f, t, v) # post"
      and n: "\<forall>x\<in>set pre. leafError L l w4 x = None"
      by blast
    have "?errs = ?e # List.map_filter (leafError L l w4) post"
      by (simp add: d map_filter_app map_filter_none[OF n] List.map_filter_simps le)
    with processStruct_failfast[OF ff, of L "[]" nodes w4] ld show ?thesis
      by simp
  qed
  have cont: "\<exists>nodes' w'. Load L l (PtrToStruct nodes) w = Some (None, PtrToStruct nodes', w')
               \<and> ConfigWarning ?e \<in> set (stderr w')
               \<and> (p, f, t, v) \<in> set (leaves [] nodes')"
    if nf: "\<not> failOnError l"
  proof -
    note c = processStruct_continue[OF nf, of L "[]" nodes w4]
    have "ConfigWarning ?e \<in> set (stderr (snd (snd ?r)))"
      using c em by simp
    moreover have "(p, f, t, v) \<in> set (leaves [] (fst (snd ?r)))"
      using c mem la by force
    ultimately show ?thesis
      using c ld by simp
  qed
  from pf fail_any fail_this cont
  show "processField L l w4 f t v p = (v, Some ?e)
     \<and> (failOnError l \<longrightarrow> (\<exists>e c. Load L l (PtrToStruct nodes) w = Some (Some e, c, w4)))
     \<and> (failOnError l
          \<and> (\<exists>pre post. leaves [] nodes = pre @ (p, f, t, v) # post
                \<and> (\<forall>x\<in>set pre. leafError L l w4 x = None))
        \<longrightarrow> (\<exists>c. Load L l (PtrToStruct nodes) w = Some (Some ?e, c, w4)))
     \<and> (\<not> failOnError l
        \<longrightarrow> (\<exists>nodes' w'. Load L l (PtrToStruct nodes) w = Some (None, PtrToStruct nodes', w')
               \<and> ConfigWarning ?e \<in> set (stderr w')
               \<and> (p, f, t, v) \<in> set (leaves [] nodes')))"
    by blast
qed

lemma nameField_facts [simp]:
  "exported nameField" "Name nameField = ''Name''" "getFlagName nameField = ''name''"
  "tag_default nameField = []" "tag_required nameField = ''true''" "tag_env nameField = ''NAME''"
  by (simp_all add: nameField_def plainField_def getFlagName_def str_defs)

lemma getEnvKey_name: "getEnvKey (NewLoader opts) w nameField ''DB_'' = envPrefix (NewLoader opts) @ ''DB_NAME''"
  by (simp add: getEnvKey_def Let_def withPrefixes_def str_defs)

lemma leaves_db: "leaves [] dbNodes = [(''DB_'', nameField, TString, VString [])]"
  by (simp add: dbNodes_def plainField_def getNestedPrefix_def)

lemma register_db:
  "registerFlags plainLib l [] dbNodes Map.empty = (None, [''name'' \<mapsto> []])"
  by (simp add: dbNodes_def plainField_def registerFieldFlag_def)

lemma beforeWalk_db:
  "beforeWalk plainLib (NewLoader [WithFailOnError b]) dbNodes bareWorld
     = Some (bareWorld\<lparr>flags := [''name'' \<mapsto> []], flagsParsed := True\<rparr>)"
  "beforeWalk plainLib (NewLoader []) dbNodes bareWorld
     = Some (bareWorld\<lparr>flags := [''name'' \<mapsto> []], flagsParsed := True\<rparr>)"
  by (rule beforeWalk_quiet; simp add: register_db del: registerFlags.simps)+

lemma resolvesNothing_db:
  "resolvesNothing (NewLoader [WithFailOnError b])
     (bareWorld\<lparr>flags := [''name'' \<mapsto> []], flagsParsed := True\<rparr>) nameField ''DB_''"
  "resolvesNothing (NewLoader [])
     (bareWorld\<lparr>flags := [''name'' \<mapsto> []], flagsParsed := True\<rparr>) nameField ''DB_''"
  by (simp_all add: resolvesNothing_def getFlagValue_def getEnvKey_name Getenv_def)

text \<open>The required field \<^verbatim>\<open>Name\<close> of the nested structure \<^verbatim>\<open>Database\<close>, in a process
  with an empty environment: under the policy to fail \<open>Load\<close> returns the error, under
  the policy to continue it returns none and writes the warning.\<close>

theorem C2_witness:
  "(\<exists>c. Load plainLib (NewLoader []) (PtrToStruct dbNodes) bareWorld
          = Some (Some (RequiredFieldMissing ''Name''), c,
                  bareWorld\<lparr>flags := [''name'' \<mapsto> []], flagsParsed := True\<rparr>))
   \<and> (\<exists>nodes' w'. Load plainLib (NewLoader [WithFailOnError False]) (PtrToStruct dbNodes) bareWorld
          = Some (None, PtrToStruct nodes', w')
        \<and> ConfigWarning (RequiredFieldMissing ''Name'') \<in> set (stderr w')
        \<and> (''DB_'', nameField, TString, VString []) \<in> set (leaves [] nodes'))"
proof
  let ?w4 = "bareWorld\<lparr>flags := [''name'' \<mapsto> []], flagsParsed := True\<rparr>"
  have first: "\<exists>pre post. leaves [] dbNodes = pre @ (''DB_'', nameField, TString, VString []) # post
                 \<and> (\<forall>x\<in>set pre. leafError plainLib (NewLoader []) ?w4 x = None)"
    by (rule exI[of _ "[]"], rule exI[of _ "[]"]) (simp add: leaves_db)
  from C2_required_field_missing[of plainLib "NewLoader []" dbNodes bareWorld ?w4
         "''DB_''" nameField TString "VString []"] first
  show "\<exists>c. Load plainLib (NewLoader []) (PtrToStruct dbNodes) bareWorld
          = Some (Some (RequiredFieldMissing ''Name''), c, ?w4)"
    by (simp add: beforeWalk_db resolvesNothing_db leaves_db)
next
  let ?w4 = "bareWorld\<lparr>flags := [''name'' \<mapsto> []], flagsParsed := True\<rparr>"
  from C2_required_field_missing[of plainLib "NewLoader [WithFailOnError False]" dbNodes
         bareWorld ?w4 "''DB_''" nameField TString "VString []"]
  show "\<exists>nodes' w'. Load plainLib (NewLoader [WithFailOnError False]) (PtrToStruct dbNodes) bareWorld
          = Some (None, PtrToStruct nodes', w')
        \<and> ConfigWarning (RequiredFieldMissing ''Name'') \<in> set (stderr w')
        \<and> (''DB_'', nameField, TString, VString []) \<in> set (leaves [] nodes')"
    by (simp add: beforeWalk_db resolvesNothing_db leaves_db)
qed

text \<open>
  C2 as the specification states it fails: for the field \<^verbatim>\<open>Name\<close> of a nested structure
  with the prefix \<^verbatim>\<open>DB_\<close>, whose fully-qualified primary name is \<^verbatim>\<open>DB_NAME\<close>, the
  error that \<open>Load\<close> returns names \<^verbatim>\<open>Name\<close>.
\<close>

theorem C2_counterexample:
  "outcome (Load plainLib (NewLoader []) (PtrToStruct dbNodes) bareWorld)
     = Some (Some (RequiredFieldMissing ''Name''), PtrToStruct dbNodes, [])
   \<and> getEnvKey (NewLoader []) bareWorld nameField ''DB_'' = ''DB_NAME''
   \<and> RequiredFieldMissing ''Name'' \<noteq> RequiredFieldMissing ''DB_NAME''"
proof (intro conjI)
  let ?w4 = "bareWorld\<lparr>flags := [''name'' \<mapsto> []], flagsParsed := True\<rparr>"
  have pf: "processField plainLib (NewLoader []) ?w4 nameField TString (VString []) ''DB_''
              = (VString [], Some (RequiredFieldMissing ''Name''))"
    using processField_required[OF _ resolvesNothing_db(2), of plainLib TString "VString []"]
    by simp
  show "outcome (Load plainLib (NewLoader []) (PtrToStruct dbNodes) bareWorld)
          = Some (Some (RequiredFieldMissing ''Name''), PtrToStruct dbNodes, [])"
    by (simp add: Load_walk[OF beforeWalk_db(2)] outcome_def)
       (simp add: dbNodes_def plainField_def getNestedPrefix_def pf)
  show "getEnvKey (NewLoader []) bareWorld nameField ''DB_'' = ''DB_NAME''"
    by (simp add: getEnvKey_name)
  show "RequiredFieldMissing ''Name'' \<noteq> RequiredFieldMissing ''DB_NAME''"
    by simp
qed

section \<open>Candidate names of the environment\<close>

text \<open>
  C4, as the code has it. The names of an \<^verbatim>\<open>env\<close> tag are tried in the order of the
  tag, each as global prefix, then accumulated prefix, then the trimmed name, with its
  case unchanged. The first of them that has a non-empty value in the environment is
  the key of the field, and when the flag of the field yields nothing its value is the
  one coerced and assigned.
\<close>

theorem C4_env_candidates_in_order:
  "tag_env f \<noteq> [] \<and> i < length (candidates l f p)
   \<and> Getenv w (candidates l f p ! i) \<noteq> [] \<and> (\<forall>j<i. Getenv w (candidates l f p ! j) = [])
   \<longrightarrow> getEnvKey l w f p = candidates l f p ! i
     \<and> (candidates l f p ! i \<noteq> []
          \<and> (getFlagName f = [] \<or> getFlagValue w (getFlagName f) = [])
        \<longrightarrow> processField L l w f t v p
             = setFieldValue L t v (Getenv w (candidates l f p ! i)) (Name f))"
proof (intro impI, elim conjE)
  assume a: "tag_env f \<noteq> []" "i < length (candidates l f p)"
    "Getenv w (candidates l f p ! i) \<noteq> []" "\<forall>j<i. Getenv w (candidates l f p ! j) = []"
  have k: "getEnvKey l w f p = candidates l f p ! i"
    using a by (rule getEnvKey_first)
  have "processField L l w f t v p
          = setFieldValue L t v (Getenv w (candidates l f p ! i)) (Name f)"
    if "candidates l f p ! i \<noteq> []"
      and "getFlagName f = [] \<or> getFlagValue w (getFlagName f) = []"
    using processField_from_env[of f w l p L t v] that a(3) k by simp
  with k show "getEnvKey l w f p = candidates l f p ! i
     \<and> (candidates l f p ! i \<noteq> []
          \<and> (getFlagName f = [] \<or> getFlagValue w (getFlagName f) = [])
        \<longrightarrow> processField L l w f t v p
             = setFieldValue L t v (Getenv w (candidates l f p ! i)) (Name f))"
    by blast
qed

lemma altPortField_facts [simp]:
  "exported altPortField" "Name altPortField = ''Port''" "getFlagName altPortField = ''port''"
  "tag_default altPortField = []" "tag_env altPortField = ''PORT,SERVER_PORT''"
  by (simp_all add: altPortField_def plainField_def getFlagName_def str_defs)

lemma candidates_altPort:
  "candidates (NewLoader []) altPortField [] = [''PORT'', ''SERVER_PORT'']"
  by (simp add: candidates_def str_defs)

lemma serverPortWorld_facts [simp]:
  "flags serverPortWorld = Map.empty"
  "environ serverPortWorld = [''SERVER_PORT'' \<mapsto> ''9000'']"
  by (simp_all add: serverPortWorld_def bareWorld_def)

lemma set_9000: "setFieldValue L TInt old ''9000'' n = (VInt 9000, None)"
  by (simp add: setFieldValue_signed setSigned_def SetInt_def parse_defs)

text \<open>With \<^verbatim>\<open>env:"PORT,SERVER_PORT"\<close> and only \<^verbatim>\<open>SERVER_PORT\<close> set, and no flag
  registered, the key is \<^verbatim>\<open>SERVER_PORT\<close> and its value is assigned.\<close>

theorem C4_witness:
  "getEnvKey (NewLoader []) serverPortWorld altPortField [] = ''SERVER_PORT''
   \<and> processField plainLib (NewLoader []) serverPortWorld altPortField TInt (VInt 0) []
       = (VInt 9000, None)"
  using C4_env_candidates_in_order[of altPortField 1 "NewLoader []" "[]" serverPortWorld
          plainLib TInt "VInt 0"]
  by (simp add: candidates_altPort Getenv_def getFlagValue_def set_9000)

lemma lowerPortField_facts [simp]:
  "exported lowerPortField" "Name lowerPortField = ''Port''"
  "getFlagName lowerPortField = ''port''" "tag_default lowerPortField = []"
  "tag_env lowerPortField = ''port''" "tag_required lowerPortField = []"
  by (simp_all add: lowerPortField_def plainField_def getFlagName_def str_defs)

lemma getEnvKey_lowerPort:
  "environ w ''port'' = None \<Longrightarrow> getEnvKey (NewLoader []) w lowerPortField [] = ''port''"
  by (simp add: getEnvKey_def Let_def withPrefixes_def Getenv_def str_defs)

text \<open>
  C4 as the specification states it fails: the name of the tag \<^verbatim>\<open>env:"port"\<close> is not
  upper-cased. With \<^verbatim>\<open>PORT=9000\<close> in the environment, the key of the field is
  \<^verbatim>\<open>port\<close>, and \<open>Load\<close> leaves the field empty, although the upper-cased name has a
  non-empty value.
\<close>

theorem C4_counterexample:
  "getEnvKey (NewLoader []) portWorld lowerPortField [] = ''port''
   \<and> Getenv portWorld (ToUpper ''port'') = ''9000''
   \<and> outcome (Load plainLib (NewLoader []) (PtrToStruct [Leaf lowerPortField TString (VString [])])
                portWorld)
       = Some (None, PtrToStruct [Leaf lowerPortField TString (VString [])], [])"
proof (intro conjI)
  let ?w4 = "portWorld\<lparr>flags := [''port'' \<mapsto> []], flagsParsed := True\<rparr>"
  let ?nodes = "[Leaf lowerPortField TString (VString [])] :: unit node list"
  show "getEnvKey (NewLoader []) portWorld lowerPortField [] = ''port''"
    by (simp add: getEnvKey_lowerPort)
  show "Getenv portWorld (ToUpper ''port'') = ''9000''"
    by (simp add: Getenv_def str_defs)
  have "registerFlags plainLib (NewLoader []) [] ?nodes Map.empty = (None, [''port'' \<mapsto> []])"
    by (simp add: registerFieldFlag_def)
  then have bw: "beforeWalk plainLib (NewLoader []) ?nodes portWorld = Some ?w4"
    by (intro beforeWalk_quiet) simp_all
  have "resolvesNothing (NewLoader []) ?w4 lowerPortField []"
    by (simp add: resolvesNothing_def getFlagValue_def getEnvKey_lowerPort Getenv_def)
  then have pf: "processField plainLib (NewLoader []) ?w4 lowerPortField TString (VString []) []
              = (VString [], None)"
    by (intro processField_nothing) simp_all
  show "outcome (Load plainLib (NewLoader []) (PtrToStruct ?nodes) portWorld)
          = Some (None, PtrToStruct ?nodes, [])"
    by (simp add: Load_walk[OF bw] outcome_def pf)
qed

section \<open>One flag for fields of the same flag name\<close>


lemma dbPortField_facts [simp]:
  "exported dbPortField" "Name dbPortField = ''Port''" "getFlagName dbPortField = ''port''"
  "tag_default dbPortField = ''5432''"
  by (simp_all add: dbPortField_def plainField_def getFlagName_def str_defs)


end
